theory Spec2Isabelle
  imports Main
begin

section \<open>JavaScript values as they cross the wire\<close>

text \<open>
  The gateway (\<^verbatim>\<open>backend/server.js\<close>) and the chat page exchange JSON. A JSON value
  is modelled as a datatype; a property that is \<^verbatim>\<open>undefined\<close> is \<open>None\<close> of
  \<open>json option\<close>. Numbers are integers: status codes and the doctors' years of experience
  are, and the handlers only test a number for being zero.
\<close>

datatype json =
  JNull
| JBool bool
| JNum int
| JStr string
| JArr "json list"
| JObj "(string \<times> json) list"

text \<open>JavaScript truthiness of a value that may be \<^verbatim>\<open>undefined\<close>.\<close>

fun truthy :: "json option \<Rightarrow> bool" where
  "truthy None = False"
| "truthy (Some JNull) = False"
| "truthy (Some (JBool b)) = b"
| "truthy (Some (JNum n)) = (n \<noteq> 0)"
| "truthy (Some (JStr s)) = (s \<noteq> [])"
| "truthy (Some (JArr xs)) = True"
| "truthy (Some (JObj fs)) = True"

text \<open>\<^verbatim>\<open>a || b\<close>: the left operand when it is truthy, the right one otherwise.\<close>

definition js_or :: "json option \<Rightarrow> json option \<Rightarrow> json option" where
  "js_or a b = (if truthy a then a else b)"

text \<open>
  \<^verbatim>\<open>v.key\<close> and \<^verbatim>\<open>v?.key\<close> for the keys the program reads (\<^verbatim>\<open>message\<close>,
  \<^verbatim>\<open>history\<close>, \<^verbatim>\<open>error\<close>, \<^verbatim>\<open>details\<close>, \<^verbatim>\<open>success\<close>, \<^verbatim>\<open>response\<close>,
  \<^verbatim>\<open>shouldTransition\<close>, ...): an object yields the stored value, every other
  non-null value yields \<^verbatim>\<open>undefined\<close>. Reading a property of \<^verbatim>\<open>null\<close> without
  \<^verbatim>\<open>?.\<close> throws; the callers below test for \<open>JNull\<close> before they use \<open>getProp\<close>
  for a plain \<^verbatim>\<open>.\<close> access. The keys of an object are distinct; of a list that repeats
  a key, the first entry is the object's.
\<close>

fun getProp :: "json \<Rightarrow> string \<Rightarrow> json option" where
  "getProp (JObj fs) k = map_of fs k"
| "getProp _ k = None"

text \<open>
  An object literal as \<^verbatim>\<open>res.json\<close> and \<^verbatim>\<open>JSON.stringify\<close> serialise it: a key
  whose value is \<^verbatim>\<open>undefined\<close> is left out.
\<close>

fun obj :: "(string \<times> json option) list \<Rightarrow> (string \<times> json) list" where
  "obj [] = []"
| "obj ((k, None) # kvs) = obj kvs"
| "obj ((k, Some v) # kvs) = (k, v) # obj kvs"

text \<open>Decimal digits of a natural number, for template literals such as \<^verbatim>\<open>`HTTP ${status}`\<close>.\<close>

definition digit :: "nat \<Rightarrow> char" where
  "digit n = ''0123456789'' ! n"

fun decimal :: "nat \<Rightarrow> string" where
  "decimal n =
     (if n < 10 then [digit n]
      else decimal (n div 10) @ [digit (n mod 10)])"

declare decimal.simps [simp del]

text \<open>
  \<^verbatim>\<open>String(v)\<close>, which \<^verbatim>\<open>new Error(v)\<close> applies to its argument: an array joins its
  elements with commas (\<^verbatim>\<open>null\<close> elements as the empty string), an object is
  \<^verbatim>\<open>[object Object]\<close>.
\<close>

fun jsString :: "json \<Rightarrow> string"
  and jsJoin :: "json list \<Rightarrow> string" where
  "jsString JNull = ''null''"
| "jsString (JBool b) = (if b then ''true'' else ''false'')"
| "jsString (JNum n) = (if n < 0 then ''-'' @ decimal (nat (- n)) else decimal (nat n))"
| "jsString (JStr s) = s"
| "jsString (JArr xs) = jsJoin xs"
| "jsString (JObj fs) = ''[object Object]''"
| "jsJoin [] = []"
| "jsJoin [x] = (if x = JNull then [] else jsString x)"
| "jsJoin (x # y # ys) = (if x = JNull then [] else jsString x) @ '','' @ jsJoin (y # ys)"

section \<open>The downstream ML service as axios sees it\<close>

text \<open>
  What the ML service does with one request: it answers after some milliseconds with an
  HTTP status and a body, the connection fails with a message, or no answer ever comes.
\<close>

datatype downstream =
  Answers nat nat json
| Unreachable string
| Silent

text \<open>
  A thrown JavaScript error: its \<^verbatim>\<open>message\<close>, and for an axios error of a request that
  was answered its \<^verbatim>\<open>response\<close> (status and data).
\<close>

record js_error =
  err_message :: string
  err_response :: "(nat \<times> json) option"

datatype axios_result = Resolved json | Rejected js_error

text \<open>
  One request of the gateway to the ML service: the URL, the data sent (\<open>None\<close> for GET)
  and the \<^verbatim>\<open>timeout\<close> of the request's config in milliseconds. axios's default is
  \<open>0\<close>: no timeout.
\<close>

record ml_call =
  url :: string
  payload :: "json option"
  timeout :: nat

text \<open>
  axios: a request whose answer takes longer than a non-zero \<^verbatim>\<open>timeout\<close> is rejected
  with \<^verbatim>\<open>timeout of Nms exceeded\<close>; a status outside 200..299 is rejected with the
  response attached; with no timeout and no answer the promise never settles (\<open>None\<close>).
\<close>

definition axios_request :: "(ml_call \<Rightarrow> downstream) \<Rightarrow> ml_call \<Rightarrow> axios_result option" where
  "axios_request ml c =
     (let timed_out = Rejected \<lparr>err_message = ''timeout of '' @ decimal (timeout c) @ ''ms exceeded'',
                                 err_response = None\<rparr>
      in case ml c of
           Silent \<Rightarrow> (if timeout c = 0 then None else Some timed_out)
         | Unreachable m \<Rightarrow> Some (Rejected \<lparr>err_message = m, err_response = None\<rparr>)
         | Answers ms st d \<Rightarrow>
             (if timeout c \<noteq> 0 \<and> timeout c < ms then Some timed_out
              else if 200 \<le> st \<and> st < 300 then Some (Resolved d)
              else Some (Rejected \<lparr>err_message = ''Request failed with status code '' @ decimal st,
                                     err_response = Some (st, d)\<rparr>)))"

section \<open>The gateway: backend/server.js\<close>

record http_response =
  status :: nat
  body :: json

text \<open>
  What a handler did: the requests it issued to the ML service, in order, and the
  response it sent (\<open>None\<close>: the handler is still awaiting the ML service and never
  responds).
\<close>

record handled =
  calls :: "ml_call list"
  reply :: "http_response option"

text \<open>\<^verbatim>\<open>process.env.ML_SERVICE_URL || 'http://localhost:5001'\<close>\<close>

definition ML_SERVICE_URL :: "string option \<Rightarrow> string" where
  "ML_SERVICE_URL env =
     (case env of None \<Rightarrow> ''http://localhost:5001''
      | Some u \<Rightarrow> if u = [] then ''http://localhost:5001'' else u)"

definition doctor :: "string \<Rightarrow> string \<Rightarrow> string \<Rightarrow> int \<Rightarrow> string \<Rightarrow> string \<Rightarrow> json" where
  "doctor i n s e img mail =
     JObj [(''id'', JStr i), (''name'', JStr n), (''specialization'', JStr s),
           (''experience'', JNum e), (''image_url'', JStr img), (''email'', JStr mail)]"

definition doctors :: "json list" where
  "doctors =
     [doctor ''1'' ''Dr. Elena Martinez'' ''Internal Medicine'' 15
        ''https://images.unsplash.com/photo-1559839734-2b71ea197ec2?w=400&h=400&fit=crop''
        ''elena.martinez@healthconnect.com'',
      doctor ''2'' ''Dr. James Wilson'' ''General Practitioner'' 12
        ''https://images.unsplash.com/photo-1612349317150-e413f6a5b16d?w=400&h=400&fit=crop''
        ''james.wilson@healthconnect.com'',
      doctor ''3'' ''Dr. Sarah Chen'' ''Pediatrics'' 10
        ''https://images.unsplash.com/photo-1594824476967-48c8b964273f?w=400&h=400&fit=crop''
        ''sarah.chen@healthconnect.com'',
      doctor ''4'' ''Dr. Michael Brown'' ''Cardiology'' 18
        ''https://images.unsplash.com/photo-1622253692010-333f2da6031d?w=400&h=400&fit=crop''
        ''michael.brown@healthconnect.com'',
      doctor ''5'' ''Dr. Lisa Anderson'' ''Dermatology'' 14
        ''https://images.unsplash.com/photo-1527613426441-4da17471b66d?w=400&h=400&fit=crop''
        ''lisa.anderson@healthconnect.com'',
      doctor ''6'' ''Dr. David Kim'' ''Orthopedics'' 16
        ''https://images.unsplash.com/photo-1537368910025-700350fe46c7?w=400&h=400&fit=crop''
        ''david.kim@healthconnect.com'']"

text \<open>
  \<^verbatim>\<open>GET /api/doctors\<close>. The handler reads neither the request nor the ML service; the
  request is a parameter only to say so.
\<close>

definition api_doctors :: "json \<Rightarrow> handled" where
  "api_doctors req =
     \<lparr>calls = [],
      reply = Some \<lparr>status = 200,
                     body = JObj (obj [(''success'', Some (JBool True)),
                                       (''doctors'', Some (JArr doctors))])\<rparr>\<rparr>"

text \<open>
  The messages of the \<^verbatim>\<open>TypeError\<close>s that the handlers can raise inside their
  \<^verbatim>\<open>try\<close> blocks (the wording is the JavaScript engine's). As a request body,
  \<open>JNull\<close> stands for a request without a parsed body: \<^verbatim>\<open>express.json()\<close> parses
  objects and arrays only, and the express that \<^verbatim>\<open>npm install express\<close> (the
  installation line at the head of server.js) installs leaves \<^verbatim>\<open>req.body\<close> undefined
  when there is nothing to parse. Destructuring it throws.
\<close>

definition destructure_error :: "string \<Rightarrow> js_error" where
  "destructure_error k =
     \<lparr>err_message = ''Cannot destructure property '' @ [CHR 0x27] @ k @ [CHR 0x27] @ '' of ''
                      @ [CHR 0x27] @ ''req.body'' @ [CHR 0x27] @ '' as it is undefined.'',
      err_response = None\<rparr>"

definition not_a_function_error :: js_error where
  "not_a_function_error =
     \<lparr>err_message = ''message?.substring is not a function'', err_response = None\<rparr>"

definition read_null_error :: "string \<Rightarrow> js_error" where
  "read_null_error k =
     \<lparr>err_message = ''Cannot read properties of null (reading '' @ [CHR 0x27] @ k @ [CHR 0x27] @ '')'',
      err_response = None\<rparr>"

text \<open>
  The \<^verbatim>\<open>catch\<close> block of \<^verbatim>\<open>POST /api/chat\<close> (server.js, lines 153 to 167):
  its \<^verbatim>\<open>errorMessage\<close> (line 158), its \<^verbatim>\<open>errorDetails\<close> (line 159) and the response.
\<close>

definition gateway_errorMessage :: "js_error \<Rightarrow> json option" where
  "gateway_errorMessage e =
     js_or (js_or (case err_response e of None \<Rightarrow> None | Some (st, d) \<Rightarrow> getProp d ''error'')
                  (Some (JStr (err_message e))))
           (Some (JStr ''Failed to process chat message''))"

definition gateway_errorDetails :: "js_error \<Rightarrow> json option" where
  "gateway_errorDetails e =
     js_or (case err_response e of None \<Rightarrow> None | Some (st, d) \<Rightarrow> getProp d ''details'')
           (Some (JStr (err_message e)))"

definition chat_catch :: "string \<Rightarrow> js_error \<Rightarrow> http_response" where
  "chat_catch mlUrl e =
     \<lparr>status = (case err_response e of None \<Rightarrow> 500
                 | Some (st, d) \<Rightarrow> if st = 0 then 500 else st),
      body = JObj (obj [(''success'', Some (JBool False)),
                        (''error'', gateway_errorMessage e),
                        (''details'', gateway_errorDetails e),
                        (''mlServiceUrl'', Some (JStr mlUrl))])\<rparr>"

text \<open>The request that \<^verbatim>\<open>POST /api/chat\<close> forwards (server.js, lines 138 to 144).\<close>

definition chat_call :: "string \<Rightarrow> json option \<Rightarrow> json option \<Rightarrow> ml_call" where
  "chat_call mlUrl message history =
     \<lparr>url = mlUrl @ ''/chat'',
      payload = Some (JObj (obj [(''input'', message), (''message'', message),
                                 (''history'', js_or history (Some (JArr [])))])),
      timeout = 30000\<rparr>"

text \<open>
  \<^verbatim>\<open>POST /api/chat\<close> (server.js, lines 123 to 168), on the parsed request body.
  The logging line evaluates \<^verbatim>\<open>message?.substring(0, 50)\<close>, which throws for a message
  that is neither \<^verbatim>\<open>undefined\<close>, \<^verbatim>\<open>null\<close> nor a string; the line after the call reads
  \<^verbatim>\<open>response.data.success\<close>, which throws for \<^verbatim>\<open>null\<close> data. Both are inside the
  \<^verbatim>\<open>try\<close>.
\<close>

text \<open>The response of \<^verbatim>\<open>POST /api/chat\<close> to the ML service's data (server.js, lines 148 to 152).\<close>

definition chat_success :: "json \<Rightarrow> http_response" where
  "chat_success d =
     \<lparr>status = 200,
      body = JObj (obj [(''success'', Some (JBool True)),
                        (''response'', getProp d ''response''),
                        (''shouldTransition'',
                           js_or (getProp d ''shouldTransition'') (Some (JBool False)))])\<rparr>"

definition is_string :: "json option \<Rightarrow> bool" where
  "is_string v = (case v of Some (JStr s) \<Rightarrow> True | _ \<Rightarrow> False)"

definition api_chat :: "string \<Rightarrow> (ml_call \<Rightarrow> downstream) \<Rightarrow> json \<Rightarrow> handled" where
  "api_chat mlUrl ml req_body =
     (if req_body = JNull then
        \<lparr>calls = [], reply = Some (chat_catch mlUrl (destructure_error ''message''))\<rparr>
      else
        let message = getProp req_body ''message'';
            history = getProp req_body ''history''
        in if message \<noteq> None \<and> message \<noteq> Some JNull \<and> \<not> is_string message then
             \<lparr>calls = [], reply = Some (chat_catch mlUrl not_a_function_error)\<rparr>
           else if \<not> truthy message then
             \<lparr>calls = [],
              reply = Some \<lparr>status = 400,
                             body = JObj (obj [(''success'', Some (JBool False)),
                                               (''error'', Some (JStr ''Message is required''))])\<rparr>\<rparr>
           else
             let c = chat_call mlUrl message history
             in case axios_request ml c of
                  None \<Rightarrow> \<lparr>calls = [c], reply = None\<rparr>
                | Some (Rejected e) \<Rightarrow> \<lparr>calls = [c], reply = Some (chat_catch mlUrl e)\<rparr>
                | Some (Resolved d) \<Rightarrow>
                    if d = JNull then
                      \<lparr>calls = [c], reply = Some (chat_catch mlUrl (read_null_error ''success''))\<rparr>
                    else \<lparr>calls = [c], reply = Some (chat_success d)\<rparr>)"

text \<open>
  \<^verbatim>\<open>POST /api/init_auth\<close> (server.js, lines 84 to 104): the body is forwarded as it is,
  with no request config.
\<close>

definition api_init_auth :: "string \<Rightarrow> (ml_call \<Rightarrow> downstream) \<Rightarrow> json \<Rightarrow> handled" where
  "api_init_auth mlUrl ml req_body =
     (let c = \<lparr>url = mlUrl @ ''/set_credentials'', payload = Some req_body, timeout = 0\<rparr>
      in case axios_request ml c of
           None \<Rightarrow> \<lparr>calls = [c], reply = None\<rparr>
         | Some (Resolved d) \<Rightarrow>
             \<lparr>calls = [c],
              reply = Some \<lparr>status = 200,
                             body = JObj (obj [(''success'', Some (JBool True)),
                                               (''message'', Some (JStr ''Credentials successfully set'')),
                                               (''mlServiceResponse'', Some d)])\<rparr>\<rparr>
         | Some (Rejected e) \<Rightarrow>
             \<lparr>calls = [c],
              reply = Some \<lparr>status = 500,
                             body = JObj (obj [(''success'', Some (JBool False)),
                                               (''error'', Some (JStr ''Failed to set credentials'')),
                                               (''details'', Some (JStr (err_message e)))])\<rparr>\<rparr>)"

text \<open>\<^verbatim>\<open>GET /api/check_auth\<close> (server.js, lines 175 to 187).\<close>

definition api_check_auth :: "string \<Rightarrow> (ml_call \<Rightarrow> downstream) \<Rightarrow> handled" where
  "api_check_auth mlUrl ml =
     (let c = \<lparr>url = mlUrl @ ''/check_auth'', payload = None, timeout = 0\<rparr>
      in case axios_request ml c of
           None \<Rightarrow> \<lparr>calls = [c], reply = None\<rparr>
         | Some (Resolved d) \<Rightarrow> \<lparr>calls = [c], reply = Some \<lparr>status = 200, body = d\<rparr>\<rparr>
         | Some (Rejected e) \<Rightarrow>
             \<lparr>calls = [c],
              reply = Some \<lparr>status = 500,
                             body = JObj (obj [(''success'', Some (JBool False)),
                                               (''error'', Some (JStr ''Failed to check authentication status'')),
                                               (''details'', Some (JStr (err_message e)))])\<rparr>\<rparr>)"

text \<open>\<^verbatim>\<open>POST /api/book\<close> (server.js, lines 194 to 218).\<close>

definition book_failed :: "js_error \<Rightarrow> http_response" where
  "book_failed e =
     \<lparr>status = 500,
      body = JObj (obj [(''success'', Some (JBool False)),
                        (''error'', Some (JStr ''Failed to book appointment'')),
                        (''details'', Some (JStr (err_message e)))])\<rparr>"

definition api_book :: "string \<Rightarrow> (ml_call \<Rightarrow> downstream) \<Rightarrow> json \<Rightarrow> handled" where
  "api_book mlUrl ml req_body =
     (if req_body = JNull then
        \<lparr>calls = [], reply = Some (book_failed (destructure_error ''doctorId''))\<rparr>
      else
        let c = \<lparr>url = mlUrl @ ''/book_appointment'',
                 payload = Some (JObj (obj [(''doctor_id'', getProp req_body ''doctorId''),
                                            (''patient_name'', getProp req_body ''patientName''),
                                            (''patient_email'', getProp req_body ''patientEmail''),
                                            (''datetime_iso'', getProp req_body ''datetime'')])),
                 timeout = 0\<rparr>
        in case axios_request ml c of
             None \<Rightarrow> \<lparr>calls = [c], reply = None\<rparr>
           | Some (Resolved d) \<Rightarrow>
               \<lparr>calls = [c],
                reply = Some \<lparr>status = 200,
                               body = JObj (obj [(''success'', Some (JBool True)),
                                                 (''booking'', Some d)])\<rparr>\<rparr>
           | Some (Rejected e) \<Rightarrow> \<lparr>calls = [c], reply = Some (book_failed e)\<rparr>)"

section \<open>The chat page: Chat.handleSend\<close>

text \<open>
  A string is a list of 8-bit code units. \<^verbatim>\<open>String.prototype.trim\<close> removes white space
  and line terminators from both ends; in this range they are tab, line feed, vertical
  tab, form feed, carriage return, space and the no-break space.
\<close>

definition isWhiteSpace :: "char \<Rightarrow> bool" where
  "isWhiteSpace c = (c \<in> set [CHR 0x09, CHR 0x0A, CHR 0x0B, CHR 0x0C, CHR 0x0D, CHR 0x20, CHR 0xA0])"

definition trim :: "string \<Rightarrow> string" where
  "trim s = rev (dropWhile isWhiteSpace (rev (dropWhile isWhiteSpace s)))"

datatype role = User | Assistant

text \<open>
  The TypeScript interface gives \<^verbatim>\<open>content: string\<close>, but the value stored on success is
  \<^verbatim>\<open>data.response\<close> of the parsed reply, whatever it is.
\<close>

record message =
  role :: role
  content :: "json option"

record chat_state =
  messages :: "message list"
  input :: string
  isLoading :: bool

text \<open>The first render: the greeting, an empty input, nothing in flight.\<close>

definition initial_chat :: chat_state where
  "initial_chat =
     \<lparr>messages = [\<lparr>role = Assistant,
                     content = Some (JStr (''Hello! I'' @ [CHR 0x27] @ ''m your medical appointment assistant. I''
                       @ [CHR 0x27] @ ''ll help you book an appointment with the right doctor. May I have your full name please?''))\<rparr>],
      input = [], isLoading = False\<rparr>"

text \<open>What the handler does besides updating the component state.\<close>

datatype effect =
  Fetch string json
| Toast string
| NavigateAfter nat string

text \<open>
  What \<^verbatim>\<open>fetch\<close> gives: it rejects with a message, or it resolves with a status and a
  body that \<^verbatim>\<open>response.json()\<close> parses (\<open>Inr\<close>) or rejects with a message (\<open>Inl\<close>).
\<close>

datatype fetch_outcome =
  FetchError string
| FetchResponse nat "string + json"

definition API_URL :: "string option \<Rightarrow> string" where
  "API_URL env =
     (case env of None \<Rightarrow> ''http://localhost:3001''
      | Some u \<Rightarrow> if u = [] then ''http://localhost:3001'' else u)"

definition role_name :: "role \<Rightarrow> string" where
  "role_name r = (case r of User \<Rightarrow> ''user'' | Assistant \<Rightarrow> ''assistant'')"

definition history_entry :: "message \<Rightarrow> json" where
  "history_entry m = JObj (obj [(''role'', Some (JStr (role_name (role m)))), (''content'', content m)])"

definition chat_body :: "chat_state \<Rightarrow> json" where
  "chat_body st =
     JObj (obj [(''message'', Some (JStr (input st))),
                (''history'', Some (JArr (map history_entry (messages st))))])"

text \<open>\<^verbatim>\<open>new Error(v).message\<close>\<close>

definition thrown :: "json option \<Rightarrow> string" where
  "thrown v = (case v of None \<Rightarrow> [] | Some j \<Rightarrow> jsString j)"

text \<open>
  The body of the \<^verbatim>\<open>try\<close> after \<^verbatim>\<open>fetch\<close> has settled (lines 259 to 280 of the chat
  page): \<open>Inl m\<close> when an error with message \<open>m\<close> is thrown, \<open>Inr (r, t)\<close> when the reply
  \<open>r\<close> is appended and \<open>t\<close> says whether navigation is scheduled.
\<close>

definition turn_outcome :: "fetch_outcome \<Rightarrow> string + (json option \<times> bool)" where
  "turn_outcome out =
     (case out of
        FetchError m \<Rightarrow> Inl m
      | FetchResponse st b \<Rightarrow>
          if \<not> (200 \<le> st \<and> st < 300) then
            let errorData = (case b of Inl m \<Rightarrow> JObj [(''error'', JStr (''HTTP '' @ decimal st))]
                             | Inr j \<Rightarrow> j)
            in if errorData = JNull then Inl (err_message (read_null_error ''error''))
               else Inl (thrown (js_or (js_or (getProp errorData ''error'') (getProp errorData ''details''))
                                       (Some (JStr (''API error: '' @ decimal st)))))
          else
            (case b of
               Inl m \<Rightarrow> Inl m
             | Inr data \<Rightarrow>
                 if data = JNull then Inl (err_message (read_null_error ''success''))
                 else if truthy (getProp data ''success'') then
                   Inr (getProp data ''response'', truthy (getProp data ''shouldTransition''))
                 else Inl (thrown (js_or (js_or (getProp data ''error'') (getProp data ''details''))
                                         (Some (JStr ''Failed to get response''))))))"

text \<open>The message that the \<^verbatim>\<open>catch\<close> block appends to the transcript.\<close>

definition error_reply :: "string \<Rightarrow> message" where
  "error_reply errorMessage =
     \<lparr>role = Assistant,
      content = Some (JStr (''Sorry, I encountered an error: '' @ errorMessage
                            @ ''. Please make sure all services are running.''))\<rparr>"

text \<open>
  \<^verbatim>\<open>handleSend\<close> (lines 237 to 295 of the chat page), run until nothing is pending: the
  component state it leaves and its effects in order. \<open>fetch\<close> giving \<open>None\<close> is a request
  that never settles: the handler stays suspended at the \<^verbatim>\<open>await\<close>.
\<close>

definition handleSend ::
  "string option \<Rightarrow> (string \<Rightarrow> json \<Rightarrow> fetch_outcome option) \<Rightarrow> chat_state \<Rightarrow> chat_state \<times> effect list" where
  "handleSend env fetch st =
     (if trim (input st) = [] \<or> isLoading st then (st, [])
      else
        let userMessage = \<lparr>role = User, content = Some (JStr (input st))\<rparr>;
            st1 = st\<lparr>messages := messages st @ [userMessage], input := [], isLoading := True\<rparr>;
            u = API_URL env @ ''/api/chat'';
            b = chat_body st
        in case fetch u b of
             None \<Rightarrow> (st1, [Fetch u b])
           | Some out \<Rightarrow>
               (case turn_outcome out of
                  Inr (r, t) \<Rightarrow>
                    (st1\<lparr>messages := messages st1 @ [\<lparr>role = Assistant, content = r\<rparr>],
                         isLoading := False\<rparr>,
                     Fetch u b # (if t then [NavigateAfter 2000 ''/doctors''] else []))
                | Inl errorMessage \<Rightarrow>
                    (st1\<lparr>isLoading := False,
                         messages := messages st1 @ [error_reply errorMessage]\<rparr>,
                     [Fetch u b, Toast errorMessage])))"

text \<open>
  The page talking to the gateway: the request body arrives as sent, and the gateway's
  status and JSON body come back as sent.
\<close>

definition via_gateway ::
  "string \<Rightarrow> (ml_call \<Rightarrow> downstream) \<Rightarrow> string \<Rightarrow> json \<Rightarrow> fetch_outcome option" where
  "via_gateway mlUrl ml u b =
     (case reply (api_chat mlUrl ml b) of
        None \<Rightarrow> None
      | Some r \<Rightarrow> Some (FetchResponse (status r) (Inr (body r))))"

section \<open>The conversation core of the specification\<close>

text \<open>
  The conversation-driven booking orchestrator of the specification (sections 3 to 5) is
  the repository's Python service (\<^verbatim>\<open>appointment_agent.py\<close>, \<^verbatim>\<open>calendar_service.py\<close>,
  \<^verbatim>\<open>ml_service.py\<close> in the README's project structure). Those files are not among the
  sources; only their caller, the gateway above, is. The definitions of this section
  follow the specification's words.
\<close>

text \<open>Modelled from the spec: the states of section 4.5 (the Python state machine is missing).\<close>

datatype state =
  AwaitingName
| AwaitingSymptoms
| AwaitingDatetime
| AwaitingConfirmation
| Booked
| Cancelled
| Failed

text \<open>
  Modelled from the spec: the Python agent (\<^verbatim>\<open>appointment_agent.py\<close>) is missing;
  the glossary's terminal states, \<open>Booked\<close>, \<open>Cancelled\<close> and \<open>Failed\<close>.
\<close>

definition terminal :: "state \<Rightarrow> bool" where
  "terminal st = (st = Booked \<or> st = Cancelled \<or> st = Failed)"

text \<open>
  Modelled from the spec: the Python agent (\<^verbatim>\<open>appointment_agent.py\<close>) is missing;
  the position of a state in the collection order
  \<open>AwaitingName \<rightarrow> AwaitingSymptoms \<rightarrow> AwaitingDatetime \<rightarrow> AwaitingConfirmation \<rightarrow> terminal\<close>
  of section 4.5.
\<close>

fun stage :: "state \<Rightarrow> nat" where
  "stage AwaitingName = 0"
| "stage AwaitingSymptoms = 1"
| "stage AwaitingDatetime = 2"
| "stage AwaitingConfirmation = 3"
| "stage Booked = 4"
| "stage Cancelled = 4"
| "stage Failed = 4"

text \<open>
  Modelled from the spec: the ConversationSession of section 3 (the Python session object
  is missing). Timestamps are integers on one fixed time line.
\<close>

record ConversationSession =
  sessionId :: string
  state :: state
  patientName :: "string option"
  symptomText :: "string option"
  doctorId :: "string option"
  requestedTime :: "int option"
  confirmed :: bool
  bookingRef :: "string option"
  createdAt :: int
  lastUpdatedAt :: int
  turnCount :: nat

text \<open>
  Modelled from the spec: the Python agent (\<^verbatim>\<open>appointment_agent.py\<close>) is missing;
  a session as it is created on its first utterance (section 3).
\<close>

definition new_session :: "string \<Rightarrow> int \<Rightarrow> ConversationSession" where
  "new_session sid now =
     \<lparr>sessionId = sid, state = AwaitingName, patientName = None, symptomText = None,
      doctorId = None, requestedTime = None, confirmed = False, bookingRef = None,
      createdAt = now, lastUpdatedAt = now, turnCount = 0\<rparr>"

text \<open>
  Modelled from the spec: the Python agent (\<^verbatim>\<open>appointment_agent.py\<close>) is missing;
  the confirmation classes of section 4.1.
\<close>

datatype intent = Affirm | Deny | Unclear

text \<open>
  Modelled from the spec: the Python agent (\<^verbatim>\<open>appointment_agent.py\<close>) is missing;
  the two ParseErrors of section 4.3.
\<close>

datatype parse_error = PastDate | Unparseable

text \<open>
  Modelled from the spec: the Python agent (\<^verbatim>\<open>appointment_agent.py\<close>) is missing;
  what the specification fixes without listing it, taken as
  parameters: the keyword classifier of confirmations (4.1), the recogniser of an explicit
  cancel intent (4.5), the tokeniser, the ordered rule table and the default doctor of the
  matcher (4.2), the reading of a time phrase against \<open>referenceNow\<close> and a time zone
  (4.3, \<open>None\<close> when the phrase has no recognisable time), the fixed time zone, the fixed
  appointment duration (3) and the bound on attempts of an external call (4.4).
\<close>

record config =
  classify :: "string \<Rightarrow> intent"
  cancelIntent :: "string \<Rightarrow> bool"
  tokenize :: "string \<Rightarrow> string list"
  rules :: "(string list \<times> string) list"
  defaultDoctor :: string
  parseTime :: "string \<Rightarrow> int \<Rightarrow> string \<Rightarrow> int option"
  timezone :: string
  duration :: int
  maxAttempts :: nat

text \<open>
  Modelled from the spec: the Python agent (\<^verbatim>\<open>appointment_agent.py\<close>) is missing;
  the name field of the Field Extractor (4.1), any non-empty
  trimmed string accepted verbatim.
\<close>

definition extractName :: "string \<Rightarrow> string option" where
  "extractName utterance = (let t = trim utterance in if t = [] then None else Some t)"

text \<open>
  Modelled from the spec: the Python agent (\<^verbatim>\<open>appointment_agent.py\<close>) is missing;
  the symptom field of the Field Extractor (4.1), the full
  utterance accepted verbatim when it is non-empty (4.5).
\<close>

definition extractSymptom :: "string \<Rightarrow> string option" where
  "extractSymptom utterance = (if utterance = [] then None else Some utterance)"

text \<open>
  Modelled from the spec: the Python agent (\<^verbatim>\<open>appointment_agent.py\<close>) is missing;
  the Doctor Matcher (4.2), first-match-wins over the ordered
  rules on the tokens of the symptom text, the default doctor when no rule matches.
\<close>

definition match_doctor :: "config \<Rightarrow> string \<Rightarrow> string" where
  "match_doctor cfg symptomText' =
     (let toks = tokenize cfg symptomText'
      in case find (\<lambda>(kws, d). list_ex (\<lambda>k. k \<in> set toks) kws) (rules cfg) of
           None \<Rightarrow> defaultDoctor cfg
         | Some (kws, d) \<Rightarrow> d)"

text \<open>
  Modelled from the spec: the Python agent (\<^verbatim>\<open>appointment_agent.py\<close>) is missing;
  the Datetime Resolver (4.3), policy decisions (1) and (2): a
  phrase with no recognisable time is \<open>Unparseable\<close>, a timestamp strictly before
  \<open>referenceNow\<close> is \<open>PastDate\<close>.
\<close>

definition resolve :: "config \<Rightarrow> string \<Rightarrow> int \<Rightarrow> string \<Rightarrow> parse_error + int" where
  "resolve cfg text' referenceNow tz =
     (case parseTime cfg text' referenceNow tz of
        None \<Rightarrow> Inl Unparseable
      | Some t \<Rightarrow> if t < referenceNow then Inl PastDate else Inr t)"

text \<open>
  Modelled from the spec: the calendar collaborator of section 6 (the Python calendar
  wrapper is missing). An event keeps the idempotency key it was created with and the
  reference the calendar issued for it.
\<close>

record event =
  evDoctor :: string
  evStart :: int
  evEnd :: int
  evPatient :: string
  evKey :: string
  evRef :: string

text \<open>
  Modelled from the spec: the Python calendar wrapper (\<^verbatim>\<open>calendar_service.py\<close>) is missing;
  the calendar's events and the number of references it has issued.
\<close>

record calendar =
  events :: "event list"
  issued :: nat

text \<open>
  Modelled from the spec: the Python calendar wrapper (\<^verbatim>\<open>calendar_service.py\<close>) is missing;
  \<open>queryConflicts(doctorId, window)\<close> of section 6.
\<close>

definition queryConflicts :: "calendar \<Rightarrow> string \<Rightarrow> int \<times> int \<Rightarrow> (int \<times> int) list" where
  "queryConflicts cal d w =
     map (\<lambda>e. (evStart e, evEnd e))
       (filter (\<lambda>e. evDoctor e = d \<and> evStart e < snd w \<and> fst w < evEnd e) (events cal))"

text \<open>
  Modelled from the spec: the Python calendar wrapper (\<^verbatim>\<open>calendar_service.py\<close>) is missing;
  \<open>createEvent(doctorId, window, patientInfo, idempotencyKey)\<close> of
  section 6 with the idempotency key of section 4.4: a key the calendar has seen yields
  the booking made under it, and nothing is written.
\<close>

definition createEvent ::
  "calendar \<Rightarrow> string \<Rightarrow> int \<times> int \<Rightarrow> string \<Rightarrow> string \<Rightarrow> string \<times> calendar" where
  "createEvent cal d w p k =
     (case find (\<lambda>e. evKey e = k) (events cal) of
        Some e \<Rightarrow> (evRef e, cal)
      | None \<Rightarrow>
          (let r = ''booking-'' @ decimal (issued cal)
           in (r, cal\<lparr>events := events cal @
                         [\<lparr>evDoctor = d, evStart = fst w, evEnd = snd w, evPatient = p,
                           evKey = k, evRef = r\<rparr>],
                       issued := Suc (issued cal)\<rparr>)))"

text \<open>
  Modelled from the spec: the Python calendar wrapper (\<^verbatim>\<open>calendar_service.py\<close>) is missing;
  the bookings that the calendar holds under one idempotency key.
\<close>

definition bookings_of :: "string \<Rightarrow> calendar \<Rightarrow> event list" where
  "bookings_of k cal = filter (\<lambda>e. evKey e = k) (events cal)"

text \<open>
  Modelled from the spec: the Python calendar wrapper (\<^verbatim>\<open>calendar_service.py\<close>) is missing;
  how one attempt of an external call ends (4.4, 5, 6): it is
  carried out and answered in time; it fails before it takes effect (\<open>NotFound\<close>,
  \<open>RateLimited\<close>, \<open>ServiceUnavailable\<close>); or it is carried out and the answer does not
  arrive within the timeout.
\<close>

datatype attempt = Delivered | Dropped | Unanswered

text \<open>
  Modelled from the spec: the Python calendar wrapper (\<^verbatim>\<open>calendar_service.py\<close>) is missing;
  everything outside the session: the calendar, and how the
  coming attempts of external calls will end (answered in time once the list is used up).
\<close>

record world =
  calendar :: calendar
  network :: "attempt list"

text \<open>
  Modelled from the spec: the Python calendar wrapper (\<^verbatim>\<open>calendar_service.py\<close>) is missing;
  how the next attempt ends, and what remains to come.
\<close>

fun next_attempt :: "attempt list \<Rightarrow> attempt \<times> attempt list" where
  "next_attempt [] = (Delivered, [])"
| "next_attempt (a # as) = (a, as)"

text \<open>
  Modelled from the spec: the Python agent (\<^verbatim>\<open>appointment_agent.py\<close>) is missing;
  the three results of \<open>tryBook\<close> (4.4).
\<close>

datatype booking_result = BookingRef string | Conflict | TransientFailure

text \<open>
  Modelled from the spec: the Python agent (\<^verbatim>\<open>appointment_agent.py\<close>) is missing;
  the bounded retry of section 4.4 around the availability query;
  \<open>None\<close> after the attempts are exhausted.
\<close>

fun query_retry ::
  "nat \<Rightarrow> calendar \<Rightarrow> string \<Rightarrow> int \<times> int \<Rightarrow> attempt list \<Rightarrow> (int \<times> int) list option \<times> attempt list" where
  "query_retry 0 cal d w net = (None, net)"
| "query_retry (Suc n) cal d w net =
     (case next_attempt net of
        (Delivered, net') \<Rightarrow> (Some (queryConflicts cal d w), net')
      | (Dropped, net') \<Rightarrow> query_retry n cal d w net'
      | (Unanswered, net') \<Rightarrow> query_retry n cal d w net')"

text \<open>
  Modelled from the spec: the Python agent (\<^verbatim>\<open>appointment_agent.py\<close>) is missing;
  the bounded retry of section 4.4 around the create request. An
  unanswered attempt has written to the calendar all the same; the retry carries the same
  idempotency key.
\<close>

fun create_retry ::
  "nat \<Rightarrow> calendar \<Rightarrow> string \<Rightarrow> int \<times> int \<Rightarrow> string \<Rightarrow> string \<Rightarrow> attempt list
     \<Rightarrow> string option \<times> calendar \<times> attempt list" where
  "create_retry 0 cal d w p k net = (None, cal, net)"
| "create_retry (Suc n) cal d w p k net =
     (case next_attempt net of
        (Delivered, net') \<Rightarrow>
          (case createEvent cal d w p k of (r, cal') \<Rightarrow> (Some r, cal', net'))
      | (Dropped, net') \<Rightarrow> create_retry n cal d w p k net'
      | (Unanswered, net') \<Rightarrow> create_retry n (snd (createEvent cal d w p k)) d w p k net')"

text \<open>
  Modelled from the spec: the Python agent (\<^verbatim>\<open>appointment_agent.py\<close>) is missing;
  \<open>tryBook\<close> of the Availability and Booking Gateway (4.4), with
  the session identifier as the idempotency key: query, \<open>Conflict\<close> on an overlap,
  otherwise create; \<open>TransientFailure\<close> when the attempts of either call are exhausted.
\<close>

definition tryBook ::
  "config \<Rightarrow> string \<Rightarrow> string \<Rightarrow> int \<times> int \<Rightarrow> string \<Rightarrow> world \<Rightarrow> booking_result \<times> world" where
  "tryBook cfg sid d w p wd =
     (case query_retry (maxAttempts cfg) (calendar wd) d w (network wd) of
        (None, net1) \<Rightarrow> (TransientFailure, wd\<lparr>network := net1\<rparr>)
      | (Some cs, net1) \<Rightarrow>
          if cs \<noteq> [] then (Conflict, wd\<lparr>network := net1\<rparr>)
          else
            (case create_retry (maxAttempts cfg) (calendar wd) d w p sid net1 of
               (None, cal', net2) \<Rightarrow> (TransientFailure, \<lparr>calendar = cal', network = net2\<rparr>)
             | (Some r, cal', net2) \<Rightarrow> (BookingRef r, \<lparr>calendar = cal', network = net2\<rparr>)))"

text \<open>
  Modelled from the spec: the Python agent (\<^verbatim>\<open>appointment_agent.py\<close>) is missing;
  every processed turn is counted and dated (3, 4.5).
\<close>

definition touch :: "int \<Rightarrow> ConversationSession \<Rightarrow> ConversationSession" where
  "touch now s = s\<lparr>lastUpdatedAt := now, turnCount := Suc (turnCount s)\<rparr>"

text \<open>
  Modelled from the spec: the Python agent (\<^verbatim>\<open>appointment_agent.py\<close>) is missing;
  \<open>AwaitingConfirmation\<close> + affirm (4.5): the gateway is invoked;
  success stores the reference and moves to \<open>Booked\<close>, a conflict reverts to
  \<open>AwaitingDatetime\<close>, a transient failure stays. A session that awaits confirmation
  without name, doctor or time has broken its invariant and moves to \<open>Failed\<close> (7).
\<close>

definition affirm :: "config \<Rightarrow> int \<Rightarrow> ConversationSession \<times> world \<Rightarrow> ConversationSession \<times> world" where
  "affirm cfg now sw =
     (case sw of (s, wd) \<Rightarrow>
        (case (patientName s, doctorId s, requestedTime s) of
           (Some p, Some d, Some t) \<Rightarrow>
             (case tryBook cfg (sessionId s) d (t, t + duration cfg) p wd of
                (BookingRef r, wd') \<Rightarrow>
                  (touch now (s\<lparr>confirmed := True, bookingRef := Some r, state := Booked\<rparr>), wd')
              | (Conflict, wd') \<Rightarrow> (touch now (s\<lparr>state := AwaitingDatetime\<rparr>), wd')
              | (TransientFailure, wd') \<Rightarrow> (touch now s, wd'))
         | _ \<Rightarrow> (touch now (s\<lparr>state := Failed\<rparr>), wd)))"

text \<open>
  Modelled from the spec: the Python agent (\<^verbatim>\<open>appointment_agent.py\<close>) is missing;
  one inbound utterance through the Conversation State Machine
  (4.5). A terminal session takes no further transition; an explicit cancel intent
  cancels from any other state; otherwise only the field that the current state expects
  is extracted (4.1).
\<close>

definition step ::
  "config \<Rightarrow> int \<Rightarrow> string \<Rightarrow> ConversationSession \<times> world \<Rightarrow> ConversationSession \<times> world" where
  "step cfg now utterance sw =
     (case sw of (s, wd) \<Rightarrow>
        if terminal (state s) then (s, wd)
        else if cancelIntent cfg utterance then (touch now (s\<lparr>state := Cancelled\<rparr>), wd)
        else
          (case state s of
             AwaitingName \<Rightarrow>
               (case extractName utterance of
                  None \<Rightarrow> (touch now s, wd)
                | Some n \<Rightarrow> (touch now (s\<lparr>patientName := Some n, state := AwaitingSymptoms\<rparr>), wd))
           | AwaitingSymptoms \<Rightarrow>
               (case extractSymptom utterance of
                  None \<Rightarrow> (touch now s, wd)
                | Some t \<Rightarrow>
                    (touch now (s\<lparr>symptomText := Some t, doctorId := Some (match_doctor cfg t),
                                  state := AwaitingDatetime\<rparr>), wd))
           | AwaitingDatetime \<Rightarrow>
               (case resolve cfg utterance now (timezone cfg) of
                  Inl e \<Rightarrow> (touch now s, wd)
                | Inr t \<Rightarrow> (touch now (s\<lparr>requestedTime := Some t, state := AwaitingConfirmation\<rparr>), wd))
           | AwaitingConfirmation \<Rightarrow>
               (case classify cfg utterance of
                  Affirm \<Rightarrow> affirm cfg now (s, wd)
                | Deny \<Rightarrow> (touch now (s\<lparr>state := AwaitingDatetime\<rparr>), wd)
                | Unclear \<Rightarrow> (touch now s, wd))
           | _ \<Rightarrow> (s, wd)))"

text \<open>
  Modelled from the spec: the Python agent (\<^verbatim>\<open>appointment_agent.py\<close>) is missing;
  the utterances of one session processed strictly in sequence
  (5), each with the time at which it arrives.
\<close>

fun run ::
  "config \<Rightarrow> ConversationSession \<times> world \<Rightarrow> (int \<times> string) list \<Rightarrow> ConversationSession \<times> world" where
  "run cfg sw [] = sw"
| "run cfg sw ((now, utterance) # turns) = run cfg (step cfg now utterance sw) turns"

text \<open>
  Modelled from the spec: the Python agent (\<^verbatim>\<open>appointment_agent.py\<close>) is missing;
  the invariants of section 3 that tie the fields to the state: the fields are populated
  strictly in the order name, symptom, doctor, time, confirmation, and \<open>bookingRef\<close> is
  set exactly in \<open>Booked\<close>.
\<close>

definition ordered :: "ConversationSession \<Rightarrow> bool" where
  "ordered s =
     ((bookingRef s \<noteq> None) = (state s = Booked)
      \<and> confirmed s = (state s = Booked)
      \<and> (state s = AwaitingName \<longrightarrow>
            patientName s = None \<and> symptomText s = None \<and> doctorId s = None
            \<and> requestedTime s = None)
      \<and> (state s = AwaitingSymptoms \<longrightarrow>
            patientName s \<noteq> None \<and> symptomText s = None \<and> doctorId s = None
            \<and> requestedTime s = None)
      \<and> (state s = AwaitingDatetime \<longrightarrow>
            patientName s \<noteq> None \<and> symptomText s \<noteq> None \<and> doctorId s \<noteq> None)
      \<and> (state s = AwaitingConfirmation \<or> state s = Booked \<longrightarrow>
            patientName s \<noteq> None \<and> symptomText s \<noteq> None \<and> doctorId s \<noteq> None
            \<and> requestedTime s \<noteq> None))"

text \<open>
  Modelled from the spec: the Python calendar wrapper (\<^verbatim>\<open>calendar_service.py\<close>) is missing;
  at-most-once (4.4) as a relation between the calendar before and after: the earlier
  events are kept as they were, and at most one event has been added, made under the
  given idempotency key.
\<close>

definition at_most_one_added :: "string \<Rightarrow> calendar \<Rightarrow> calendar \<Rightarrow> bool" where
  "at_most_one_added k cal0 cal =
     (take (length (events cal0)) (events cal) = events cal0
      \<and> length (events cal) \<le> Suc (length (events cal0))
      \<and> list_all (\<lambda>e. evKey e = k) (drop (length (events cal0)) (events cal)))"

section \<open>Predicates of the interface and example environments\<close>

text \<open>
  The inbound conversational turn of the specification's section 6 returns
  \<open>(replyText, terminalFlag)\<close>: a response body carries them when \<^verbatim>\<open>response\<close> is a
  string and \<^verbatim>\<open>shouldTransition\<close> is a boolean.
\<close>

definition is_bool :: "json option \<Rightarrow> bool" where
  "is_bool v = (case v of Some (JBool b) \<Rightarrow> True | _ \<Rightarrow> False)"

definition carries_reply_and_flag :: "json \<Rightarrow> bool" where
  "carries_reply_and_flag b =
     (is_string (getProp b ''response'') \<and> is_bool (getProp b ''shouldTransition''))"

text \<open>An ML service that is not running, one that never answers, and one that answers.\<close>

definition ml_refusing :: "ml_call \<Rightarrow> downstream" where
  "ml_refusing c = Unreachable ''connect ECONNREFUSED 127.0.0.1:5001''"

definition ml_silent :: "ml_call \<Rightarrow> downstream" where
  "ml_silent c = Silent"

definition ml_answering :: "json \<Rightarrow> ml_call \<Rightarrow> downstream" where
  "ml_answering d c = Answers 120 200 d"

text \<open>A network on which the page's request fails.\<close>

definition fetch_failing :: "string \<Rightarrow> json \<Rightarrow> fetch_outcome option" where
  "fetch_failing u b = Some (FetchError ''Failed to fetch'')"

text \<open>A network on which the page's request is answered with a reply that ends the conversation.\<close>

definition fetch_replying :: "string \<Rightarrow> json \<Rightarrow> fetch_outcome option" where
  "fetch_replying u b =
     Some (FetchResponse 200
             (Inr (JObj [(''success'', JBool True), (''response'', JStr ''Appointment confirmed!''),
                         (''shouldTransition'', JBool True)])))"

text \<open>The page with \<^verbatim>\<open>hello\<close> typed into the input.\<close>

definition typed_hello :: chat_state where
  "typed_hello = initial_chat\<lparr>input := ''hello''\<rparr>"

text \<open>An ML service that answers 503 with an error text of its own.\<close>

definition ml_unavailable :: "ml_call \<Rightarrow> downstream" where
  "ml_unavailable c = Answers 40 503 (JObj [(''error'', JStr ''Calendar service not initialized'')])"

text \<open>
  A configuration of the conversation core for the examples: \<^verbatim>\<open>yes\<close> affirms and
  \<^verbatim>\<open>no\<close> denies, an utterance that starts with \<^verbatim>\<open>cancel\<close> is an explicit cancel
  intent, tokens are separated by spaces, a
  phrase ending in \<^verbatim>\<open>tomorrow at 2pm\<close> (\<^verbatim>\<open>yesterday at 2pm\<close>) means 14:00 on the day
  after (before) \<open>referenceNow\<close>, with days of 86400 seconds.
\<close>

fun sample_tokens :: "string \<Rightarrow> string \<Rightarrow> string list" where
  "sample_tokens acc [] = (if acc = [] then [] else [acc])"
| "sample_tokens acc (c # cs) =
     (if c = CHR '' '' then (if acc = [] then [] else [acc]) @ sample_tokens [] cs
      else sample_tokens (acc @ [c]) cs)"

definition sample_parse :: "string \<Rightarrow> int \<Rightarrow> string \<Rightarrow> int option" where
  "sample_parse phrase referenceNow tz =
     (if drop (length phrase - 15) phrase = ''tomorrow at 2pm''
        then Some (86400 * (referenceNow div 86400 + 1) + 50400)
      else if drop (length phrase - 16) phrase = ''yesterday at 2pm''
        then Some (86400 * (referenceNow div 86400 - 1) + 50400)
      else None)"

definition sample_classify :: "string \<Rightarrow> intent" where
  "sample_classify u = (if u = ''yes'' then Affirm else if u = ''no'' then Deny else Unclear)"

definition sample_cancel :: "string \<Rightarrow> bool" where
  "sample_cancel u = (take 6 u = ''cancel'')"

definition sample_config :: config where
  "sample_config =
     \<lparr>classify = sample_classify, cancelIntent = sample_cancel, tokenize = sample_tokens [],
      rules = [([''chest'', ''heart''], ''4''), ([''headache'', ''fever''], ''2'')],
      defaultDoctor = ''1'', parseTime = sample_parse, timezone = ''Asia/Kolkata'',
      duration = 1800, maxAttempts = 3\<rparr>"

text \<open>
  An empty calendar behind a network on which the availability query is answered, the
  first create request is carried out but not answered in time, and the retry is answered.
\<close>

definition sample_world :: world where
  "sample_world =
     \<lparr>calendar = \<lparr>events = [], issued = 0\<rparr>, network = [Delivered, Unanswered, Delivered]\<rparr>"

text \<open>The end-to-end conversation of the specification's section 8, and a repeated confirmation.\<close>

definition sample_turns :: "(int \<times> string) list" where
  "sample_turns =
     [(100000, ''Sarah Johnson''), (100060, ''I have a bad headache and fever''),
      (100120, ''tomorrow at 2pm''), (100180, ''yes'')]"

definition sample_again :: "(int \<times> string) list" where
  "sample_again = [(100240, ''yes'')]"

text \<open>
  A conversation whose first utterance mentions a time next to the name, and which then
  gives the symptoms; the same conversation followed by an utterance with no time in it.
\<close>

definition early_turns :: "(int \<times> string) list" where
  "early_turns =
     [(100000, ''Sarah Johnson tomorrow at 2pm''), (100060, ''I have a bad headache and fever'')]"

definition stalled_turns :: "(int \<times> string) list" where
  "stalled_turns = early_turns @ [(100120, ''soon'')]"

section \<open>Properties of the gateway\<close>

lemma map_of_obj_Cons:
  "map_of (obj ((k, v) # kvs)) k' =
     (if k = k' \<and> v \<noteq> None then v else map_of (obj kvs) k')"
  by (cases v) auto

lemma js_or_truthy: "truthy a \<Longrightarrow> js_or a b = a"
  by (simp add: js_or_def)

lemma decimal_503: "decimal 503 = ''503''"
  by (simp add: decimal.simps digit_def)

lemma decimal_30000: "decimal 30000 = ''30000''"
  by (simp add: decimal.simps digit_def)

text \<open>
  Claim C5. For every request to the doctor directory endpoint the response reports
  success and returns the fixed list of doctors; every entry has an \<^verbatim>\<open>id\<close>, a
  \<^verbatim>\<open>name\<close> and a \<^verbatim>\<open>specialization\<close>; the handler issues no call, and any two requests
  get the same response.
\<close>

theorem doctor_directory_static:
  "api_doctors req =
     \<lparr>calls = [],
      reply = Some \<lparr>status = 200,
                     body = JObj [(''success'', JBool True), (''doctors'', JArr doctors)]\<rparr>\<rparr>
   \<and> api_doctors req = api_doctors req'
   \<and> length doctors = 6
   \<and> list_all (\<lambda>d. is_string (getProp d ''id'') \<and> is_string (getProp d ''name'')
                     \<and> is_string (getProp d ''specialization'')) doctors"
  by (simp add: api_doctors_def doctors_def doctor_def is_string_def)

text \<open>
  The message guard (server.js, lines 129 to 134). For every chat request with a parsed
  body whose message is absent, \<^verbatim>\<open>null\<close> or the empty string, the gateway responds
  with status 400 and \<^verbatim>\<open>success: false\<close>, and issues no call to the ML service.
\<close>

theorem chat_requires_message:
  assumes "req_body \<noteq> JNull"
    and "getProp req_body ''message'' = None \<or> getProp req_body ''message'' = Some JNull
         \<or> getProp req_body ''message'' = Some (JStr [])"
  shows "api_chat mlUrl ml req_body =
           \<lparr>calls = [],
            reply = Some \<lparr>status = 400,
                           body = JObj [(''success'', JBool False),
                                        (''error'', JStr ''Message is required'')]\<rparr>\<rparr>"
  using assms by (auto simp add: api_chat_def is_string_def)

text \<open>The three bodies of the claim, sent while the ML service would answer.\<close>

theorem chat_requires_message_witness:
  "api_chat ''http://localhost:5001'' (ml_answering (JObj [(''response'', JStr ''Hello'')]))
      (JObj [(''history'', JArr [])])
     = \<lparr>calls = [],
        reply = Some \<lparr>status = 400,
                       body = JObj [(''success'', JBool False),
                                    (''error'', JStr ''Message is required'')]\<rparr>\<rparr>
   \<and> api_chat ''http://localhost:5001'' (ml_answering (JObj [(''response'', JStr ''Hello'')]))
      (JObj [(''message'', JNull)])
     = \<lparr>calls = [],
        reply = Some \<lparr>status = 400,
                       body = JObj [(''success'', JBool False),
                                    (''error'', JStr ''Message is required'')]\<rparr>\<rparr>
   \<and> api_chat ''http://localhost:5001'' (ml_answering (JObj [(''response'', JStr ''Hello'')]))
      (JObj [(''message'', JStr [])])
     = \<lparr>calls = [],
        reply = Some \<lparr>status = 400,
                       body = JObj [(''success'', JBool False),
                                    (''error'', JStr ''Message is required'')]\<rparr>\<rparr>"
proof -
  have a: "JObj [(''history'', JArr [])] \<noteq> JNull"
    and b: "JObj [(''message'', JNull)] \<noteq> JNull"
    and c: "JObj [(''message'', JStr [])] \<noteq> JNull"
    by simp_all
  have a': "getProp (JObj [(''history'', JArr [])]) ''message'' = None
            \<or> getProp (JObj [(''history'', JArr [])]) ''message'' = Some JNull
            \<or> getProp (JObj [(''history'', JArr [])]) ''message'' = Some (JStr [])"
    by simp
  have b': "getProp (JObj [(''message'', JNull)]) ''message'' = None
            \<or> getProp (JObj [(''message'', JNull)]) ''message'' = Some JNull
            \<or> getProp (JObj [(''message'', JNull)]) ''message'' = Some (JStr [])"
    by simp
  have c': "getProp (JObj [(''message'', JStr [])]) ''message'' = None
            \<or> getProp (JObj [(''message'', JStr [])]) ''message'' = Some JNull
            \<or> getProp (JObj [(''message'', JStr [])]) ''message'' = Some (JStr [])"
    by simp
  show ?thesis
    using chat_requires_message [OF a a'] chat_requires_message [OF b b']
      chat_requires_message [OF c c']
    by simp
qed

text \<open>
  Claim C9 fails on the code by a missed case. A chat request without a parsed body lacks
  a message, and the guard would answer it with 400; but the handler destructures
  \<^verbatim>\<open>req.body\<close> before the guard, inside the \<^verbatim>\<open>try\<close>, so the request is answered by
  the \<^verbatim>\<open>catch\<close> block: status 500 and the engine's error text, where the claim says
  status 400. No call is issued to the ML service.
\<close>

theorem chat_without_body:
  "getProp JNull ''message'' = None
   \<and> api_chat ''http://localhost:5001'' (ml_answering (JObj [(''response'', JStr ''Hello'')])) JNull
     = \<lparr>calls = [],
        reply = Some \<lparr>status = 500,
                       body = JObj [(''success'', JBool False),
                                    (''error'', JStr (err_message (destructure_error ''message''))),
                                    (''details'', JStr (err_message (destructure_error ''message''))),
                                    (''mlServiceUrl'', JStr ''http://localhost:5001'')]\<rparr>\<rparr>
   \<and> err_message (destructure_error ''message'')
     = ''Cannot destructure property '' @ [CHR 0x27] @ ''message'' @ [CHR 0x27] @ '' of ''
       @ [CHR 0x27] @ ''req.body'' @ [CHR 0x27] @ '' as it is undefined.''"
  by (simp add: api_chat_def chat_catch_def gateway_errorMessage_def gateway_errorDetails_def
      js_or_def destructure_error_def)

text \<open>
  Claim C3 as it is stated fails. The gateway relays the ML service's \<^verbatim>\<open>response\<close>
  unchecked and its flag through \<^verbatim>\<open>|| false\<close>, which turns a falsy value into
  \<^verbatim>\<open>false\<close> and passes every other value on. An ML service that answers 200 with
  \<^verbatim>\<open>{success: false, error: ...}\<close> (the case that the log line before the response
  calls \<^verbatim>\<open>failed\<close>) gets \<^verbatim>\<open>success: true\<close> with no reply text; one that sends
  \<^verbatim>\<open>shouldTransition: 1\<close> gets the number through.
\<close>

theorem chat_flag_counterexample:
  "api_chat ''http://localhost:5001''
      (ml_answering (JObj [(''success'', JBool False), (''error'', JStr ''Agent not initialized'')]))
      (JObj [(''message'', JStr ''hi'')])
   = \<lparr>calls = [chat_call ''http://localhost:5001'' (Some (JStr ''hi'')) None],
      reply = Some \<lparr>status = 200,
                     body = JObj [(''success'', JBool True), (''shouldTransition'', JBool False)]\<rparr>\<rparr>
   \<and> \<not> carries_reply_and_flag
         (JObj [(''success'', JBool True), (''shouldTransition'', JBool False)])
   \<and> api_chat ''http://localhost:5001''
      (ml_answering (JObj [(''response'', JStr ''Hello''), (''shouldTransition'', JNum 1)]))
      (JObj [(''message'', JStr ''hi'')])
   = \<lparr>calls = [chat_call ''http://localhost:5001'' (Some (JStr ''hi'')) None],
      reply = Some \<lparr>status = 200,
                     body = JObj [(''success'', JBool True), (''response'', JStr ''Hello''),
                                  (''shouldTransition'', JNum 1)]\<rparr>\<rparr>
   \<and> \<not> carries_reply_and_flag
         (JObj [(''success'', JBool True), (''response'', JStr ''Hello''), (''shouldTransition'', JNum 1)])"
  by (simp add: api_chat_def is_string_def is_bool_def carries_reply_and_flag_def chat_call_def
      axios_request_def ml_answering_def js_or_def chat_success_def)

lemma chat_success_props:
  "status (chat_success d) = 200"
  "getProp (body (chat_success d)) ''success'' = Some (JBool True)"
  "getProp (body (chat_success d)) ''response'' = getProp d ''response''"
  "getProp (body (chat_success d)) ''shouldTransition'' =
     (if truthy (getProp d ''shouldTransition'') then getProp d ''shouldTransition''
      else Some (JBool False))"
  by (simp_all add: chat_success_def map_of_obj_Cons js_or_def del: obj.simps(2,3))

text \<open>
  Claim C3, amended. For every inbound conversational turn with a non-empty message that
  the ML service answers within the timeout, with a status from 200 to 299 and data that
  is not \<^verbatim>\<open>null\<close>, the gateway forwards one request and responds with status 200,
  \<^verbatim>\<open>success: true\<close>, the ML service's \<^verbatim>\<open>response\<close> as it is, and a
  \<^verbatim>\<open>shouldTransition\<close> that is the ML service's value when that value is truthy and
  \<^verbatim>\<open>false\<close> otherwise: \<^verbatim>\<open>false\<close> whenever the ML service omits it, and a reply text
  with a boolean flag whenever the ML service sends a string and a boolean or no flag.
\<close>

theorem chat_success_response:
  assumes "getProp req_body ''message'' = Some (JStr m)" and "m \<noteq> []"
    and "ml (chat_call mlUrl (Some (JStr m)) (getProp req_body ''history'')) = Answers ms st d"
    and "ms \<le> 30000" and "200 \<le> st" and "st < 300" and "d \<noteq> JNull"
  shows "api_chat mlUrl ml req_body =
           \<lparr>calls = [chat_call mlUrl (Some (JStr m)) (getProp req_body ''history'')],
            reply = Some (chat_success d)\<rparr>
         \<and> status (chat_success d) = 200
         \<and> getProp (body (chat_success d)) ''success'' = Some (JBool True)
         \<and> getProp (body (chat_success d)) ''response'' = getProp d ''response''
         \<and> getProp (body (chat_success d)) ''shouldTransition'' =
              (if truthy (getProp d ''shouldTransition'') then getProp d ''shouldTransition''
               else Some (JBool False))
         \<and> (getProp d ''shouldTransition'' = None \<longrightarrow>
              getProp (body (chat_success d)) ''shouldTransition'' = Some (JBool False))
         \<and> (is_string (getProp d ''response'')
              \<and> (getProp d ''shouldTransition'' = None \<or> is_bool (getProp d ''shouldTransition''))
             \<longrightarrow> carries_reply_and_flag (body (chat_success d)))"
proof -
  let ?c = "chat_call mlUrl (Some (JStr m)) (getProp req_body ''history'')"
  have ax: "axios_request ml ?c = Some (Resolved d)"
    using assms by (simp add: axios_request_def chat_call_def)
  have nn: "req_body \<noteq> JNull" using assms(1) by auto
  have h: "api_chat mlUrl ml req_body = \<lparr>calls = [?c], reply = Some (chat_success d)\<rparr>"
    using assms(1,2,7) nn ax by (simp add: api_chat_def is_string_def)
  have s4: "is_string (getProp d ''response'')
              \<and> (getProp d ''shouldTransition'' = None \<or> is_bool (getProp d ''shouldTransition''))
             \<longrightarrow> carries_reply_and_flag (body (chat_success d))"
  proof (cases "getProp d ''shouldTransition''")
    case None
    then show ?thesis
      by (simp add: carries_reply_and_flag_def chat_success_props is_bool_def)
  next
    case (Some v)
    then show ?thesis
      by (cases v) (simp_all add: carries_reply_and_flag_def chat_success_props is_bool_def)
  qed
  have s5: "getProp d ''shouldTransition'' = None \<longrightarrow>
              getProp (body (chat_success d)) ''shouldTransition'' = Some (JBool False)"
    unfolding chat_success_props by simp
  show ?thesis
    using h s4 s5 chat_success_props [of d] by (intro conjI) assumption+
qed

text \<open>A turn in which the ML service sends a reply text and no flag.\<close>

theorem chat_success_response_witness:
  "getProp (JObj [(''message'', JStr ''hi'')]) ''message'' = Some (JStr ''hi'')
   \<and> ml_answering (JObj [(''response'', JStr ''Hello'')])
        (chat_call ''http://localhost:5001'' (Some (JStr ''hi''))
           (getProp (JObj [(''message'', JStr ''hi'')]) ''history''))
      = Answers 120 200 (JObj [(''response'', JStr ''Hello'')])
   \<and> api_chat ''http://localhost:5001'' (ml_answering (JObj [(''response'', JStr ''Hello'')]))
        (JObj [(''message'', JStr ''hi'')])
      = \<lparr>calls = [chat_call ''http://localhost:5001'' (Some (JStr ''hi''))
                    (getProp (JObj [(''message'', JStr ''hi'')]) ''history'')],
         reply = Some (chat_success (JObj [(''response'', JStr ''Hello'')]))\<rparr>
   \<and> getProp (body (chat_success (JObj [(''response'', JStr ''Hello'')]))) ''response''
      = Some (JStr ''Hello'')
   \<and> getProp (body (chat_success (JObj [(''response'', JStr ''Hello'')]))) ''shouldTransition''
      = Some (JBool False)
   \<and> carries_reply_and_flag (body (chat_success (JObj [(''response'', JStr ''Hello'')])))"
proof -
  let ?d = "JObj [(''response'', JStr ''Hello'')]"
  let ?b = "JObj [(''message'', JStr ''hi'')]"
  have h1: "getProp ?b ''message'' = Some (JStr ''hi'')" by simp
  have h2: "''hi'' \<noteq> []" by simp
  have h3: "ml_answering ?d (chat_call ''http://localhost:5001'' (Some (JStr ''hi''))
              (getProp ?b ''history'')) = Answers 120 200 ?d"
    by (simp add: ml_answering_def)
  have h4: "(120::nat) \<le> 30000" and h5: "(200::nat) \<le> 200" and h6: "(200::nat) < 300"
    by simp_all
  have h7: "?d \<noteq> JNull" by simp
  show ?thesis
    using h1 h3
      chat_success_response [where req_body = "?b" and m = "''hi''"
        and ml = "ml_answering ?d" and mlUrl = "''http://localhost:5001''"
        and ms = 120 and st = 200 and d = "?d", OF h1 h2 h3 h4 h5 h6 h7]
    by (simp add: is_string_def)
qed

text \<open>
  Claim C4 fails on the code by a slip that its sibling path does not make. Only the chat
  call carries a timeout (30000 ms), and there a silent ML service yields a 500 response
  with \<^verbatim>\<open>success: false\<close>. The booking call and the two authentication calls are
  issued without a request config, so axios applies its default of no timeout: against a
  silent ML service these handlers never respond.
\<close>

theorem calls_without_timeout:
  "api_chat ''http://localhost:5001'' ml_silent (JObj [(''message'', JStr ''hi'')])
     = \<lparr>calls = [\<lparr>url = ''http://localhost:5001/chat'',
                   payload = Some (JObj [(''input'', JStr ''hi''), (''message'', JStr ''hi''),
                                         (''history'', JArr [])]),
                   timeout = 30000\<rparr>],
        reply = Some \<lparr>status = 500,
                       body = JObj [(''success'', JBool False),
                                    (''error'', JStr ''timeout of 30000ms exceeded''),
                                    (''details'', JStr ''timeout of 30000ms exceeded''),
                                    (''mlServiceUrl'', JStr ''http://localhost:5001'')]\<rparr>\<rparr>
   \<and> api_book ''http://localhost:5001'' ml_silent
        (JObj [(''doctorId'', JStr ''2''), (''patientName'', JStr ''Sarah Johnson''),
               (''patientEmail'', JStr ''sarah.johnson@email.com''),
               (''datetime'', JStr ''2025-11-19T13:00:00'')])
     = \<lparr>calls = [\<lparr>url = ''http://localhost:5001/book_appointment'',
                   payload = Some (JObj [(''doctor_id'', JStr ''2''),
                                         (''patient_name'', JStr ''Sarah Johnson''),
                                         (''patient_email'', JStr ''sarah.johnson@email.com''),
                                         (''datetime_iso'', JStr ''2025-11-19T13:00:00'')]),
                   timeout = 0\<rparr>],
        reply = None\<rparr>
   \<and> api_init_auth ''http://localhost:5001'' ml_silent (JObj [(''installed'', JObj [])])
     = \<lparr>calls = [\<lparr>url = ''http://localhost:5001/set_credentials'',
                   payload = Some (JObj [(''installed'', JObj [])]), timeout = 0\<rparr>],
        reply = None\<rparr>
   \<and> api_check_auth ''http://localhost:5001'' ml_silent
     = \<lparr>calls = [\<lparr>url = ''http://localhost:5001/check_auth'', payload = None, timeout = 0\<rparr>],
        reply = None\<rparr>"
  by (simp add: api_chat_def api_book_def api_init_auth_def api_check_auth_def ml_silent_def
      axios_request_def chat_call_def chat_catch_def gateway_errorMessage_def
      gateway_errorDetails_def js_or_def is_string_def decimal_30000)

text \<open>
  Every chat request with a non-empty string for a message is forwarded exactly once, to
  \<^verbatim>\<open>/chat\<close> of the ML service, with the message under both \<^verbatim>\<open>input\<close> and
  \<^verbatim>\<open>message\<close>, the history or an empty list, and a timeout of 30000 ms.
\<close>

theorem chat_forwards_once:
  assumes "getProp req_body ''message'' = Some (JStr m)" and "m \<noteq> []"
  shows "calls (api_chat mlUrl ml req_body) =
           [\<lparr>url = mlUrl @ ''/chat'',
             payload = Some (JObj (obj [(''input'', Some (JStr m)), (''message'', Some (JStr m)),
                                        (''history'', js_or (getProp req_body ''history'')
                                                            (Some (JArr [])))])),
             timeout = 30000\<rparr>]"
proof -
  have nn: "req_body \<noteq> JNull" using assms(1) by auto
  show ?thesis
    using assms nn
    by (simp add: api_chat_def is_string_def chat_call_def Let_def
        split: option.splits axios_result.splits)
qed

theorem chat_forwards_once_witness:
  "getProp (JObj [(''message'', JStr ''hi'')]) ''message'' = Some (JStr ''hi'')
   \<and> calls (api_chat ''http://localhost:5001'' ml_refusing (JObj [(''message'', JStr ''hi'')])) =
       [\<lparr>url = ''http://localhost:5001/chat'',
         payload = Some (JObj [(''input'', JStr ''hi''), (''message'', JStr ''hi''),
                               (''history'', JArr [])]),
         timeout = 30000\<rparr>]"
proof -
  have h1: "getProp (JObj [(''message'', JStr ''hi'')]) ''message'' = Some (JStr ''hi'')" by simp
  have h2: "''hi'' \<noteq> []" by simp
  show ?thesis
    using h1 chat_forwards_once [OF h1 h2, of "''http://localhost:5001''" ml_refusing]
    by (simp add: js_or_def)
qed

text \<open>
  When the ML service does not answer a chat request within 30000 ms, the gateway
  responds with status 500, \<^verbatim>\<open>success: false\<close> and axios's timeout message.
\<close>

theorem chat_timeout_fails:
  assumes "getProp req_body ''message'' = Some (JStr m)" and "m \<noteq> []"
    and "ml (chat_call mlUrl (Some (JStr m)) (getProp req_body ''history'')) = Silent
         \<or> (\<exists>ms st d. ml (chat_call mlUrl (Some (JStr m)) (getProp req_body ''history''))
                          = Answers ms st d \<and> 30000 < ms)"
  shows "reply (api_chat mlUrl ml req_body) =
           Some \<lparr>status = 500,
                 body = JObj [(''success'', JBool False),
                              (''error'', JStr ''timeout of 30000ms exceeded''),
                              (''details'', JStr ''timeout of 30000ms exceeded''),
                              (''mlServiceUrl'', JStr mlUrl)]\<rparr>"
proof -
  let ?c = "chat_call mlUrl (Some (JStr m)) (getProp req_body ''history'')"
  have nn: "req_body \<noteq> JNull" using assms(1) by auto
  have t: "timeout ?c = 30000" by (simp add: chat_call_def)
  have ax: "axios_request ml ?c =
              Some (Rejected \<lparr>err_message = ''timeout of 30000ms exceeded'', err_response = None\<rparr>)"
    using assms(3) by (auto simp add: axios_request_def t decimal_30000)
  show ?thesis
    using assms(1,2) nn ax
    by (simp add: api_chat_def is_string_def chat_catch_def gateway_errorMessage_def
        gateway_errorDetails_def js_or_def)
qed

theorem chat_timeout_fails_witness:
  "getProp (JObj [(''message'', JStr ''hi'')]) ''message'' = Some (JStr ''hi'')
   \<and> ml_silent (chat_call ''http://localhost:5001'' (Some (JStr ''hi''))
                  (getProp (JObj [(''message'', JStr ''hi'')]) ''history'')) = Silent
   \<and> reply (api_chat ''http://localhost:5001'' ml_silent (JObj [(''message'', JStr ''hi'')])) =
       Some \<lparr>status = 500,
             body = JObj [(''success'', JBool False),
                          (''error'', JStr ''timeout of 30000ms exceeded''),
                          (''details'', JStr ''timeout of 30000ms exceeded''),
                          (''mlServiceUrl'', JStr ''http://localhost:5001'')]\<rparr>"
proof -
  have h1: "getProp (JObj [(''message'', JStr ''hi'')]) ''message'' = Some (JStr ''hi'')" by simp
  have h2: "''hi'' \<noteq> []" by simp
  have s: "ml_silent (chat_call ''http://localhost:5001'' (Some (JStr ''hi''))
                  (getProp (JObj [(''message'', JStr ''hi'')]) ''history'')) = Silent"
    by (simp add: ml_silent_def)
  then have h3: "ml_silent (chat_call ''http://localhost:5001'' (Some (JStr ''hi''))
                  (getProp (JObj [(''message'', JStr ''hi'')]) ''history'')) = Silent
         \<or> (\<exists>ms st d. ml_silent (chat_call ''http://localhost:5001'' (Some (JStr ''hi''))
                  (getProp (JObj [(''message'', JStr ''hi'')]) ''history''))
                          = Answers ms st d \<and> 30000 < ms)"
    by simp
  show ?thesis
    using h1 s chat_timeout_fails [where ml = ml_silent and mlUrl = "''http://localhost:5001''"
        and req_body = "JObj [(''message'', JStr ''hi'')]" and m = "''hi''", OF h1 h2 h3]
    by simp
qed

text \<open>
  A message that is present and neither \<^verbatim>\<open>null\<close> nor a string (such as \<^verbatim>\<open>0\<close> or
  \<^verbatim>\<open>false\<close>) never reaches the guard: the logging line throws on
  \<^verbatim>\<open>message?.substring\<close>, and the gateway responds with status 500 and issues no call.
\<close>

theorem chat_rejects_non_string:
  assumes "getProp req_body ''message'' = Some v" and "v \<noteq> JNull" and "\<not> is_string (Some v)"
  shows "api_chat mlUrl ml req_body =
           \<lparr>calls = [],
            reply = Some \<lparr>status = 500,
                          body = JObj [(''success'', JBool False),
                                       (''error'', JStr ''message?.substring is not a function''),
                                       (''details'', JStr ''message?.substring is not a function''),
                                       (''mlServiceUrl'', JStr mlUrl)]\<rparr>\<rparr>"
proof -
  have nn: "req_body \<noteq> JNull" using assms(1) by auto
  show ?thesis
    using assms nn
    by (simp add: api_chat_def chat_catch_def not_a_function_error_def gateway_errorMessage_def
        gateway_errorDetails_def js_or_def)
qed

theorem chat_rejects_non_string_witness:
  "getProp (JObj [(''message'', JNum 0)]) ''message'' = Some (JNum 0)
   \<and> \<not> is_string (Some (JNum 0))
   \<and> api_chat ''http://localhost:5001'' ml_silent (JObj [(''message'', JNum 0)]) =
       \<lparr>calls = [],
        reply = Some \<lparr>status = 500,
                      body = JObj [(''success'', JBool False),
                                   (''error'', JStr ''message?.substring is not a function''),
                                   (''details'', JStr ''message?.substring is not a function''),
                                   (''mlServiceUrl'', JStr ''http://localhost:5001'')]\<rparr>\<rparr>"
proof -
  have h1: "getProp (JObj [(''message'', JNum 0)]) ''message'' = Some (JNum 0)" by simp
  have h2: "JNum 0 \<noteq> JNull" by simp
  have h3: "\<not> is_string (Some (JNum 0))" by (simp add: is_string_def)
  show ?thesis
    using h1 h3 chat_rejects_non_string [OF h1 h2 h3, of "''http://localhost:5001''" ml_silent]
    by simp
qed

section \<open>Properties of the chat page\<close>

lemma trim_empty_iff: "trim s = [] \<longleftrightarrow> (\<forall>c\<in>set s. isWhiteSpace c)"
proof
  assume t: "trim s = []"
  show "\<forall>c\<in>set s. isWhiteSpace c"
  proof (rule ccontr)
    assume "\<not> (\<forall>c\<in>set s. isWhiteSpace c)"
    then have ne: "dropWhile isWhiteSpace s \<noteq> []"
      by (simp add: dropWhile_eq_Nil_conv)
    then have "\<not> isWhiteSpace (hd (dropWhile isWhiteSpace s))"
      by (rule hd_dropWhile)
    moreover have "hd (dropWhile isWhiteSpace s) \<in> set (rev (dropWhile isWhiteSpace s))"
      using ne by simp
    ultimately have "dropWhile isWhiteSpace (rev (dropWhile isWhiteSpace s)) \<noteq> []"
      unfolding dropWhile_eq_Nil_conv by blast
    then show False using t by (simp add: trim_def)
  qed
next
  assume "\<forall>c\<in>set s. isWhiteSpace c"
  then have d: "dropWhile isWhiteSpace s = []"
    by (simp add: dropWhile_eq_Nil_conv)
  show "trim s = []" unfolding trim_def d by simp
qed

text \<open>
  Claim C10. For every chat input that is empty or consists only of white space, and
  whenever a previous request is still in flight, the send handler does nothing: no
  message is appended, no request is made, and the component state is unchanged.
\<close>

theorem handleSend_guard:
  assumes "(\<forall>c\<in>set (input st). isWhiteSpace c) \<or> isLoading st"
  shows "handleSend env fetch st = (st, [])"
  using assms by (auto simp add: handleSend_def trim_empty_iff)

text \<open>A space and a tab in the input; and \<^verbatim>\<open>hello\<close> typed while a request is in flight.\<close>

theorem handleSend_guard_witness:
  "handleSend None fetch_failing (initial_chat\<lparr>input := [CHR 0x20, CHR 0x09]\<rparr>)
     = (initial_chat\<lparr>input := [CHR 0x20, CHR 0x09]\<rparr>, [])
   \<and> isLoading (typed_hello\<lparr>isLoading := True\<rparr>)
   \<and> handleSend None fetch_failing (typed_hello\<lparr>isLoading := True\<rparr>)
     = (typed_hello\<lparr>isLoading := True\<rparr>, [])"
proof -
  have a: "(\<forall>c\<in>set (input (initial_chat\<lparr>input := [CHR 0x20, CHR 0x09]\<rparr>)). isWhiteSpace c)
           \<or> isLoading (initial_chat\<lparr>input := [CHR 0x20, CHR 0x09]\<rparr>)"
    by (simp add: isWhiteSpace_def)
  have b: "(\<forall>c\<in>set (input (typed_hello\<lparr>isLoading := True\<rparr>)). isWhiteSpace c)
           \<or> isLoading (typed_hello\<lparr>isLoading := True\<rparr>)"
    by simp
  show ?thesis
    using handleSend_guard [OF a, of None fetch_failing]
      handleSend_guard [OF b, of None fetch_failing]
    by simp
qed

lemma chat_body_props:
  "chat_body st \<noteq> JNull"
  "getProp (chat_body st) ''message'' = Some (JStr (input st))"
  "getProp (chat_body st) ''history'' = Some (JArr (map history_entry (messages st)))"
  by (simp_all add: chat_body_def)

lemma gateway_errorMessage_truthy: "truthy (gateway_errorMessage e)"
  by (simp add: gateway_errorMessage_def js_or_def)

lemma chat_catch_props:
  "getProp (body (chat_catch mlUrl e)) ''success'' = Some (JBool False)"
  "getProp (body (chat_catch mlUrl e)) ''error'' = gateway_errorMessage e"
  "body (chat_catch mlUrl e) \<noteq> JNull"
  using gateway_errorMessage_truthy [of e]
  by (auto simp add: chat_catch_def map_of_obj_Cons simp del: obj.simps(2,3))

lemma turn_outcome_catch:
  "turn_outcome (FetchResponse (status (chat_catch mlUrl e)) (Inr (body (chat_catch mlUrl e))))
     = Inl (thrown (gateway_errorMessage e))"
  by (simp add: turn_outcome_def Let_def chat_catch_props js_or_truthy gateway_errorMessage_truthy)

text \<open>
  Claim C2 as it is stated fails: the gateway copies the error's message into its
  response and the page shows it. With the ML service not running, the toast is the raw
  connection error, and the reply in the transcript quotes it.
\<close>

theorem raw_error_counterexample:
  "handleSend None (via_gateway ''http://localhost:5001'' ml_refusing) typed_hello =
     (initial_chat
        \<lparr>messages := messages initial_chat @
           [\<lparr>role = User, content = Some (JStr ''hello'')\<rparr>,
            \<lparr>role = Assistant,
             content = Some (JStr ''Sorry, I encountered an error: connect ECONNREFUSED 127.0.0.1:5001. Please make sure all services are running.'')\<rparr>],
         isLoading := False\<rparr>,
      [Fetch ''http://localhost:3001/api/chat'' (chat_body typed_hello),
       Toast ''connect ECONNREFUSED 127.0.0.1:5001''])"
  by (simp add: handleSend_def typed_hello_def initial_chat_def trim_def isWhiteSpace_def
      via_gateway_def api_chat_def chat_body_def is_string_def axios_request_def chat_call_def
      ml_refusing_def chat_catch_def gateway_errorMessage_def gateway_errorDetails_def js_or_def
      turn_outcome_def thrown_def error_reply_def API_URL_def history_entry_def role_name_def
      Let_def)

text \<open>
  Claim C2, amended. For every inbound conversational turn whose call to the ML service
  fails, the page appends one assistant message, the sentence
  \<^verbatim>\<open>Sorry, I encountered an error: M. Please make sure all services are running.\<close>,
  and shows \<open>M\<close> in a toast, where \<open>M\<close> is the gateway's \<^verbatim>\<open>errorMessage\<close> as a string:
  the \<^verbatim>\<open>error\<close> field of the ML service's response when it is truthy, otherwise the
  error's own message, otherwise \<^verbatim>\<open>Failed to process chat message\<close>. When the failure
  has no response and a non-empty message, \<open>M\<close> is that message as it is.
\<close>

theorem chat_failure_shown:
  assumes "trim (input st) \<noteq> []" and "\<not> isLoading st"
    and "axios_request ml (chat_call mlUrl (Some (JStr (input st)))
                             (Some (JArr (map history_entry (messages st))))) = Some (Rejected e)"
  shows "handleSend env (via_gateway mlUrl ml) st =
           (st\<lparr>messages := messages st @ [\<lparr>role = User, content = Some (JStr (input st))\<rparr>,
                                             error_reply (thrown (gateway_errorMessage e))],
               input := [], isLoading := False\<rparr>,
            [Fetch (API_URL env @ ''/api/chat'') (chat_body st),
             Toast (thrown (gateway_errorMessage e))])
         \<and> (err_response e = None \<and> err_message e \<noteq> [] \<longrightarrow>
              thrown (gateway_errorMessage e) = err_message e)"
proof -
  have ne: "input st \<noteq> []" using assms(1) by (auto simp add: trim_def)
  have g: "api_chat mlUrl ml (chat_body st) =
             \<lparr>calls = [chat_call mlUrl (Some (JStr (input st)))
                                   (Some (JArr (map history_entry (messages st))))],
              reply = Some (chat_catch mlUrl e)\<rparr>"
    using ne assms(3) by (simp add: api_chat_def chat_body_props is_string_def)
  have v: "via_gateway mlUrl ml (API_URL env @ ''/api/chat'') (chat_body st) =
             Some (FetchResponse (status (chat_catch mlUrl e)) (Inr (body (chat_catch mlUrl e))))"
    by (simp add: via_gateway_def g)
  have a: "handleSend env (via_gateway mlUrl ml) st =
           (st\<lparr>messages := messages st @ [\<lparr>role = User, content = Some (JStr (input st))\<rparr>,
                                             error_reply (thrown (gateway_errorMessage e))],
               input := [], isLoading := False\<rparr>,
            [Fetch (API_URL env @ ''/api/chat'') (chat_body st),
             Toast (thrown (gateway_errorMessage e))])"
    using assms(1,2) by (simp add: handleSend_def Let_def v turn_outcome_catch)
  have b: "err_response e = None \<and> err_message e \<noteq> [] \<longrightarrow>
              thrown (gateway_errorMessage e) = err_message e"
    by (auto simp add: gateway_errorMessage_def js_or_def thrown_def)
  show ?thesis using a b by (intro conjI) assumption+
qed

text \<open>A turn that the ML service answers with status 503 and an error text of its own.\<close>

theorem chat_failure_shown_witness:
  "trim (input typed_hello) \<noteq> []
   \<and> \<not> isLoading typed_hello
   \<and> axios_request ml_unavailable
        (chat_call ''http://localhost:5001'' (Some (JStr (input typed_hello)))
           (Some (JArr (map history_entry (messages typed_hello)))))
      = Some (Rejected \<lparr>err_message = ''Request failed with status code 503'',
                         err_response = Some (503, JObj [(''error'', JStr ''Calendar service not initialized'')])\<rparr>)
   \<and> snd (handleSend None (via_gateway ''http://localhost:5001'' ml_unavailable) typed_hello)
      = [Fetch ''http://localhost:3001/api/chat'' (chat_body typed_hello),
         Toast ''Calendar service not initialized'']
   \<and> last (messages (fst (handleSend None (via_gateway ''http://localhost:5001'' ml_unavailable)
                              typed_hello)))
      = \<lparr>role = Assistant,
         content = Some (JStr ''Sorry, I encountered an error: Calendar service not initialized. Please make sure all services are running.'')\<rparr>"
proof -
  let ?e = "\<lparr>err_message = ''Request failed with status code 503'',
             err_response = Some (503, JObj [(''error'', JStr ''Calendar service not initialized'')])\<rparr>"
  have h1: "trim (input typed_hello) \<noteq> []"
    by (simp add: typed_hello_def initial_chat_def trim_def isWhiteSpace_def)
  have h2: "\<not> isLoading typed_hello"
    by (simp add: typed_hello_def initial_chat_def)
  have h3: "axios_request ml_unavailable
              (chat_call ''http://localhost:5001'' (Some (JStr (input typed_hello)))
                 (Some (JArr (map history_entry (messages typed_hello))))) = Some (Rejected ?e)"
    by (simp add: axios_request_def ml_unavailable_def chat_call_def decimal_503)
  have m: "thrown (gateway_errorMessage ?e) = ''Calendar service not initialized''"
    by (simp add: gateway_errorMessage_def js_or_def thrown_def)
  show ?thesis
    using h1 h2 h3
      chat_failure_shown [where st = typed_hello and ml = ml_unavailable
        and mlUrl = "''http://localhost:5001''" and e = "?e" and env = None, OF h1 h2 h3]
    by (simp add: m error_reply_def API_URL_def)
qed

text \<open>
  A turn that the gateway answers with \<^verbatim>\<open>success\<close>: the page appends the user's message
  and the reply, clears the input, ends loading, and schedules the navigation to
  \<^verbatim>\<open>/doctors\<close> after 2000 ms exactly when \<^verbatim>\<open>shouldTransition\<close> is truthy.
\<close>

theorem handleSend_success:
  assumes "trim (input st) \<noteq> []" and "\<not> isLoading st"
    and "fetch (API_URL env @ ''/api/chat'') (chat_body st) = Some (FetchResponse code (Inr data))"
    and "200 \<le> code" and "code < 300" and "data \<noteq> JNull"
    and "truthy (getProp data ''success'')"
  shows "handleSend env fetch st =
           (st\<lparr>messages := messages st @ [\<lparr>role = User, content = Some (JStr (input st))\<rparr>,
                                             \<lparr>role = Assistant, content = getProp data ''response''\<rparr>],
               input := [], isLoading := False\<rparr>,
            Fetch (API_URL env @ ''/api/chat'') (chat_body st)
              # (if truthy (getProp data ''shouldTransition'')
                 then [NavigateAfter 2000 ''/doctors''] else []))"
  using assms by (simp add: handleSend_def Let_def turn_outcome_def)

theorem handleSend_success_witness:
  "trim (input typed_hello) \<noteq> []
   \<and> \<not> isLoading typed_hello
   \<and> handleSend None fetch_replying typed_hello =
       (initial_chat
          \<lparr>messages := messages initial_chat @
             [\<lparr>role = User, content = Some (JStr ''hello'')\<rparr>,
              \<lparr>role = Assistant, content = Some (JStr ''Appointment confirmed!'')\<rparr>],
           isLoading := False\<rparr>,
        [Fetch ''http://localhost:3001/api/chat'' (chat_body typed_hello),
         NavigateAfter 2000 ''/doctors''])"
proof -
  let ?data = "JObj [(''success'', JBool True), (''response'', JStr ''Appointment confirmed!''),
                     (''shouldTransition'', JBool True)]"
  have h1: "trim (input typed_hello) \<noteq> []"
    by (simp add: typed_hello_def initial_chat_def trim_def isWhiteSpace_def)
  have h2: "\<not> isLoading typed_hello"
    by (simp add: typed_hello_def initial_chat_def)
  have h3: "fetch_replying (API_URL None @ ''/api/chat'') (chat_body typed_hello)
              = Some (FetchResponse 200 (Inr ?data))"
    by (simp add: fetch_replying_def)
  have h4: "(200::nat) \<le> 200" and h5: "(200::nat) < 300" by simp_all
  have h6: "?data \<noteq> JNull" by simp
  have h7: "truthy (getProp ?data ''success'')" by simp
  show ?thesis
    using h1 h2
      handleSend_success [where st = typed_hello and fetch = fetch_replying and env = None
        and code = 200 and data = "?data", OF h1 h2 h3 h4 h5 h6 h7]
    by (simp add: API_URL_def typed_hello_def initial_chat_def)
qed

section \<open>Properties of the conversation core\<close>

lemma step_terminal: "terminal (state s) \<Longrightarrow> step cfg now u (s, wd) = (s, wd)"
  by (simp add: step_def)

lemma run_terminal: "terminal (state s) \<Longrightarrow> run cfg (s, wd) turns = (s, wd)"
proof (induction turns)
  case Nil
  show ?case by simp
next
  case (Cons a turns)
  obtain now u where a: "a = (now, u)" by (cases a)
  from Cons show ?case by (simp add: a step_terminal)
qed

lemma run_append: "run cfg sw (us @ vs) = run cfg (run cfg sw us) vs"
proof (induction us arbitrary: sw)
  case Nil
  show ?case by simp
next
  case (Cons a us)
  obtain now u where a: "a = (now, u)" by (cases a)
  show ?case by (simp add: a Cons.IH)
qed

lemma run_after_terminal:
  assumes "terminal (state (fst (run cfg sw us)))"
  shows "run cfg sw (us @ vs) = run cfg sw us"
proof -
  obtain s1 w1 where r: "run cfg sw us = (s1, w1)" by (cases "run cfg sw us")
  with assms have "terminal (state s1)" by simp
  then have "run cfg (s1, w1) vs = (s1, w1)" by (rule run_terminal)
  then show ?thesis by (simp add: run_append r)
qed

lemma touch_fields:
  "state (touch now s) = state s" "bookingRef (touch now s) = bookingRef s"
  "patientName (touch now s) = patientName s" "symptomText (touch now s) = symptomText s"
  "doctorId (touch now s) = doctorId s" "requestedTime (touch now s) = requestedTime s"
  "sessionId (touch now s) = sessionId s" "confirmed (touch now s) = confirmed s"
  by (simp_all add: touch_def)

lemma affirm_cases:
  "(\<exists>r wd' p d t. patientName s = Some p \<and> doctorId s = Some d \<and> requestedTime s = Some t
        \<and> tryBook cfg (sessionId s) d (t, t + duration cfg) p wd = (BookingRef r, wd')
        \<and> affirm cfg now (s, wd) =
              (touch now (s\<lparr>confirmed := True, bookingRef := Some r, state := Booked\<rparr>), wd'))
   \<or> (\<exists>wd' p d t. tryBook cfg (sessionId s) d (t, t + duration cfg) p wd = (Conflict, wd')
        \<and> affirm cfg now (s, wd) = (touch now (s\<lparr>state := AwaitingDatetime\<rparr>), wd'))
   \<or> (\<exists>wd' p d t. tryBook cfg (sessionId s) d (t, t + duration cfg) p wd = (TransientFailure, wd')
        \<and> affirm cfg now (s, wd) = (touch now s, wd'))
   \<or> affirm cfg now (s, wd) = (touch now (s\<lparr>state := Failed\<rparr>), wd)"
  by (auto simp add: affirm_def split: option.splits prod.splits booking_result.splits)

lemma step_cases:
  "(terminal (state s) \<and> step cfg now u (s, wd) = (s, wd))
   \<or> (\<not> terminal (state s) \<and>
       (step cfg now u (s, wd) = (touch now s, wd)
        \<or> (cancelIntent cfg u \<and> step cfg now u (s, wd) = (touch now (s\<lparr>state := Cancelled\<rparr>), wd))
        \<or> (\<exists>n. state s = AwaitingName \<and> extractName u = Some n \<and>
              step cfg now u (s, wd) =
                (touch now (s\<lparr>patientName := Some n, state := AwaitingSymptoms\<rparr>), wd))
        \<or> (\<exists>t. state s = AwaitingSymptoms \<and> extractSymptom u = Some t \<and>
              step cfg now u (s, wd) =
                (touch now (s\<lparr>symptomText := Some t, doctorId := Some (match_doctor cfg t),
                              state := AwaitingDatetime\<rparr>), wd))
        \<or> (\<exists>t. state s = AwaitingDatetime \<and> resolve cfg u now (timezone cfg) = Inr t \<and>
              step cfg now u (s, wd) =
                (touch now (s\<lparr>requestedTime := Some t, state := AwaitingConfirmation\<rparr>), wd))
        \<or> (state s = AwaitingConfirmation \<and> classify cfg u = Deny \<and>
              step cfg now u (s, wd) = (touch now (s\<lparr>state := AwaitingDatetime\<rparr>), wd))
        \<or> (state s = AwaitingConfirmation \<and> classify cfg u = Affirm \<and>
              step cfg now u (s, wd) = affirm cfg now (s, wd))))"
  by (auto simp add: step_def terminal_def split: state.splits option.splits sum.splits intent.splits)

lemma step_stage:
  "state (fst (step cfg now u (s, wd))) = Cancelled \<or> state (fst (step cfg now u (s, wd))) = Failed
   \<or> stage (state (fst (step cfg now u (s, wd)))) \<le> Suc (stage (state s))"
  using step_cases [of s cfg now u wd] affirm_cases [of s cfg wd now]
  by (auto simp add: touch_fields)

lemma ordered_touch: "ordered (touch now s) = ordered s"
  by (simp add: ordered_def touch_def)

lemma ordered_cancel:
  "ordered s \<Longrightarrow> \<not> terminal (state s) \<Longrightarrow> ordered (s\<lparr>state := Cancelled\<rparr>)"
  "ordered s \<Longrightarrow> \<not> terminal (state s) \<Longrightarrow> ordered (s\<lparr>state := Failed\<rparr>)"
  by (simp_all add: ordered_def terminal_def)

lemma ordered_name:
  "ordered s \<Longrightarrow> state s = AwaitingName \<Longrightarrow>
     ordered (s\<lparr>patientName := Some n, state := AwaitingSymptoms\<rparr>)"
  by (simp add: ordered_def)

lemma ordered_symptoms:
  "ordered s \<Longrightarrow> state s = AwaitingSymptoms \<Longrightarrow>
     ordered (s\<lparr>symptomText := Some t, doctorId := Some d, state := AwaitingDatetime\<rparr>)"
  by (simp add: ordered_def)

lemma ordered_time:
  "ordered s \<Longrightarrow> state s = AwaitingDatetime \<Longrightarrow>
     ordered (s\<lparr>requestedTime := Some t, state := AwaitingConfirmation\<rparr>)"
  by (simp add: ordered_def)

lemma ordered_back:
  "ordered s \<Longrightarrow> state s = AwaitingConfirmation \<Longrightarrow> ordered (s\<lparr>state := AwaitingDatetime\<rparr>)"
  by (simp add: ordered_def)

lemma ordered_booked:
  "ordered s \<Longrightarrow> state s = AwaitingConfirmation \<Longrightarrow>
     ordered (s\<lparr>confirmed := True, bookingRef := Some r, state := Booked\<rparr>)"
  by (simp add: ordered_def)

lemma affirm_ordered:
  assumes "ordered s" and "state s = AwaitingConfirmation"
  shows "ordered (fst (affirm cfg now (s, wd)))"
proof -
  show ?thesis
    using affirm_cases [of s cfg wd now]
    by (elim disjE exE conjE)
       (simp_all add: ordered_touch ordered_booked ordered_back ordered_cancel assms terminal_def)
qed

lemma step_ordered:
  assumes "ordered s"
  shows "ordered (fst (step cfg now u (s, wd)))"
  using step_cases [of s cfg now u wd]
  by (elim disjE exE conjE)
     (simp_all add: ordered_touch ordered_cancel ordered_name ordered_symptoms ordered_time
        ordered_back affirm_ordered assms)

lemma run_ordered: "ordered s \<Longrightarrow> ordered (fst (run cfg (s, wd) turns))"
proof (induction turns arbitrary: s wd)
  case Nil
  then show ?case by simp
next
  case (Cons a turns)
  obtain now u where a: "a = (now, u)" by (cases a)
  obtain s' wd' where st: "step cfg now u (s, wd) = (s', wd')" by (cases "step cfg now u (s, wd)")
  have "ordered s'" using step_ordered [OF Cons.prems, of cfg now u wd] st by simp
  then show ?case using Cons.IH [of s' wd'] by (simp add: a st)
qed

lemma new_session_ordered: "ordered (new_session sid now)"
  by (simp add: ordered_def new_session_def)

lemmas sample_defs = sample_config_def sample_world_def sample_turns_def sample_again_def
  early_turns_def stalled_turns_def
  sample_parse_def sample_classify_def sample_cancel_def new_session_def
  step_def affirm_def touch_def terminal_def extractName_def extractSymptom_def trim_def
  isWhiteSpace_def match_doctor_def resolve_def tryBook_def createEvent_def queryConflicts_def
  bookings_of_def decimal.simps digit_def Let_def numeral_3_eq_3

lemma sample_run:
  "run sample_config (new_session ''s1'' 100000, sample_world) sample_turns =
     (\<lparr>sessionId = ''s1'', state = Booked, patientName = Some ''Sarah Johnson'',
       symptomText = Some ''I have a bad headache and fever'', doctorId = Some ''2'',
       requestedTime = Some 223200, confirmed = True, bookingRef = Some ''booking-0'',
       createdAt = 100000, lastUpdatedAt = 100180, turnCount = 4\<rparr>,
      \<lparr>calendar = \<lparr>events = [\<lparr>evDoctor = ''2'', evStart = 223200, evEnd = 225000,
                                  evPatient = ''Sarah Johnson'', evKey = ''s1'',
                                  evRef = ''booking-0''\<rparr>],
                    issued = 1\<rparr>,
       network = []\<rparr>)"
  by (simp add: sample_defs)

lemma early_run:
  "run sample_config (new_session ''s1'' 100000, sample_world) early_turns =
     (\<lparr>sessionId = ''s1'', state = AwaitingDatetime,
       patientName = Some ''Sarah Johnson tomorrow at 2pm'',
       symptomText = Some ''I have a bad headache and fever'', doctorId = Some ''2'',
       requestedTime = None, confirmed = False, bookingRef = None,
       createdAt = 100000, lastUpdatedAt = 100060, turnCount = 2\<rparr>, sample_world)"
  by (simp add: sample_defs)

lemma stalled_run:
  "run sample_config (new_session ''s1'' 100000, sample_world) stalled_turns =
     (\<lparr>sessionId = ''s1'', state = AwaitingDatetime,
       patientName = Some ''Sarah Johnson tomorrow at 2pm'',
       symptomText = Some ''I have a bad headache and fever'', doctorId = Some ''2'',
       requestedTime = None, confirmed = False, bookingRef = None,
       createdAt = 100000, lastUpdatedAt = 100120, turnCount = 3\<rparr>, sample_world)"
  unfolding stalled_turns_def run_append early_run by (simp add: sample_defs)

text \<open>
  Claim C6. Once the state of a session has reached a terminal value (\<open>Booked\<close>,
  \<open>Cancelled\<close> or \<open>Failed\<close>), no further utterance changes the state again: whatever
  follows, the session and the world around it stay as they were.
\<close>

theorem terminal_state_never_changes:
  assumes "terminal (state (fst (run cfg sw us)))"
  shows "state (fst (run cfg sw (us @ vs))) = state (fst (run cfg sw us))
         \<and> run cfg sw (us @ vs) = run cfg sw us"
  using run_after_terminal [OF assms, of vs] by simp

text \<open>A session cancelled by its first utterance, then sent the whole booking conversation.\<close>

theorem terminal_state_never_changes_witness:
  "terminal (state (fst (run sample_config (new_session ''s1'' 100000, sample_world)
                           [(100000, ''cancel'')])))
   \<and> state (fst (run sample_config (new_session ''s1'' 100000, sample_world)
                    ([(100000, ''cancel'')] @ sample_turns))) = Cancelled"
proof -
  have c: "state (fst (run sample_config (new_session ''s1'' 100000, sample_world)
                         [(100000, ''cancel'')])) = Cancelled"
    by (simp add: sample_defs)
  then have t: "terminal (state (fst (run sample_config (new_session ''s1'' 100000, sample_world)
                                        [(100000, ''cancel'')])))"
    by (simp add: terminal_def)
  show ?thesis
    using t c terminal_state_never_changes [OF t, of sample_turns] by simp
qed

lemma step_keeps_time:
  "state s = AwaitingName \<or> state s = AwaitingSymptoms \<Longrightarrow>
     requestedTime (fst (step cfg now u (s, wd))) = requestedTime s"
  using step_cases [of s cfg now u wd]
  by (auto simp add: touch_fields terminal_def)

lemma step_keeps_symptoms:
  "state s = AwaitingName \<Longrightarrow>
     symptomText (fst (step cfg now u (s, wd))) = symptomText s
     \<and> doctorId (fst (step cfg now u (s, wd))) = doctorId s"
  using step_cases [of s cfg now u wd]
  by (auto simp add: touch_fields terminal_def)

lemma step_keeps_confirmation:
  "state s = AwaitingName \<or> state s = AwaitingSymptoms \<or> state s = AwaitingDatetime \<Longrightarrow>
     confirmed (fst (step cfg now u (s, wd))) = confirmed s
     \<and> bookingRef (fst (step cfg now u (s, wd))) = bookingRef s"
  using step_cases [of s cfg now u wd]
  by (auto simp add: touch_fields terminal_def)

lemma step_supplies_name:
  "state s = AwaitingName \<Longrightarrow> state (fst (step cfg now u (s, wd))) = AwaitingSymptoms \<Longrightarrow>
     extractName u \<noteq> None \<and> patientName (fst (step cfg now u (s, wd))) = extractName u"
  using step_cases [of s cfg now u wd]
  by (auto simp add: touch_fields terminal_def)

lemma step_supplies_symptoms:
  "state s = AwaitingSymptoms \<Longrightarrow> state (fst (step cfg now u (s, wd))) = AwaitingDatetime \<Longrightarrow>
     extractSymptom u \<noteq> None \<and> symptomText (fst (step cfg now u (s, wd))) = extractSymptom u
     \<and> doctorId (fst (step cfg now u (s, wd))) = Some (match_doctor cfg u)"
  using step_cases [of s cfg now u wd]
  by (auto simp add: touch_fields terminal_def extractSymptom_def split: if_splits)

lemma step_supplies_time:
  "state s = AwaitingDatetime \<Longrightarrow> state (fst (step cfg now u (s, wd))) = AwaitingConfirmation \<Longrightarrow>
     \<exists>t. resolve cfg u now (timezone cfg) = Inr t
         \<and> requestedTime (fst (step cfg now u (s, wd))) = Some t"
  using step_cases [of s cfg now u wd]
  by (auto simp add: touch_fields terminal_def)

lemma step_books_on_affirm:
  "state (fst (step cfg now u (s, wd))) = Booked \<Longrightarrow> state s \<noteq> Booked \<Longrightarrow>
     state s = AwaitingConfirmation \<and> classify cfg u = Affirm
     \<and> confirmed (fst (step cfg now u (s, wd)))"
  using step_cases [of s cfg now u wd] affirm_cases [of s cfg wd now]
  by (auto simp add: touch_fields terminal_def)

text \<open>
  Claim C7. For every sequence of utterances of a session, the next utterance never skips
  a state forward: it leaves the session cancelled or failed, or at most one stage further
  in the collection order. An utterance processed while the session awaits the name or the
  symptoms does not populate \<open>requestedTime\<close>, whatever time it mentions; one processed
  while the session awaits the name populates neither \<open>symptomText\<close> nor \<open>doctorId\<close>;
  and none processed before the confirmation is awaited sets \<open>confirmed\<close> or
  \<open>bookingRef\<close>. Each field has to be supplied once its state is reached: the session
  leaves \<open>AwaitingName\<close> for \<open>AwaitingSymptoms\<close> only with the name that this utterance
  gives, \<open>AwaitingSymptoms\<close> for \<open>AwaitingDatetime\<close> only with the symptoms that this
  utterance gives, \<open>AwaitingDatetime\<close> for \<open>AwaitingConfirmation\<close> only with the time
  to which this utterance resolves, and it becomes \<open>Booked\<close> only on an affirming
  utterance while it awaits confirmation. A session that awaits the date and time, the
  confirmation, or is booked holds every field of the earlier stages.
\<close>

theorem no_forward_skip:
  fixes cfg sid t0 wd turns now utterance
  defines "before \<equiv> fst (run cfg (new_session sid t0, wd) turns)"
  defines "after \<equiv> fst (run cfg (new_session sid t0, wd) (turns @ [(now, utterance)]))"
  shows "(state after = Cancelled \<or> state after = Failed
            \<or> stage (state after) \<le> Suc (stage (state before)))
         \<and> (state before = AwaitingName \<or> state before = AwaitingSymptoms
              \<longrightarrow> requestedTime after = None)
         \<and> (state before = AwaitingName
              \<longrightarrow> symptomText after = None \<and> doctorId after = None)
         \<and> (state before = AwaitingName \<or> state before = AwaitingSymptoms
              \<or> state before = AwaitingDatetime
              \<longrightarrow> \<not> confirmed after \<and> bookingRef after = None)
         \<and> (state before = AwaitingName \<and> state after = AwaitingSymptoms
              \<longrightarrow> extractName utterance \<noteq> None \<and> patientName after = extractName utterance)
         \<and> (state before = AwaitingSymptoms \<and> state after = AwaitingDatetime
              \<longrightarrow> extractSymptom utterance \<noteq> None
                  \<and> symptomText after = extractSymptom utterance
                  \<and> doctorId after = Some (match_doctor cfg utterance))
         \<and> (state before = AwaitingDatetime \<and> state after = AwaitingConfirmation
              \<longrightarrow> (\<exists>t. resolve cfg utterance now (timezone cfg) = Inr t
                       \<and> requestedTime after = Some t))
         \<and> (state after = Booked \<and> state before \<noteq> Booked
              \<longrightarrow> state before = AwaitingConfirmation \<and> classify cfg utterance = Affirm
                  \<and> confirmed after)
         \<and> (state after = AwaitingDatetime
              \<longrightarrow> patientName after \<noteq> None \<and> symptomText after \<noteq> None
                  \<and> doctorId after \<noteq> None)
         \<and> (state after = AwaitingConfirmation \<or> state after = Booked
              \<longrightarrow> patientName after \<noteq> None \<and> symptomText after \<noteq> None
                  \<and> doctorId after \<noteq> None \<and> requestedTime after \<noteq> None)"
proof -
  obtain s1 w1 where r: "run cfg (new_session sid t0, wd) turns = (s1, w1)"
    by (cases "run cfg (new_session sid t0, wd) turns")
  have b: "before = s1" by (simp add: before_def r)
  have a: "after = fst (step cfg now utterance (s1, w1))"
    by (simp add: after_def run_append r)
  have o: "ordered s1"
    using run_ordered [OF new_session_ordered, of cfg sid t0 wd turns] r by simp
  have o': "ordered after"
    unfolding a using o by (rule step_ordered)
  have p1: "state after = Cancelled \<or> state after = Failed
            \<or> stage (state after) \<le> Suc (stage (state before))"
    unfolding a b by (rule step_stage)
  have p2: "state before = AwaitingName \<or> state before = AwaitingSymptoms
              \<longrightarrow> requestedTime after = None"
  proof
    assume h: "state before = AwaitingName \<or> state before = AwaitingSymptoms"
    then have "requestedTime s1 = None" using o b by (auto simp add: ordered_def)
    moreover have "requestedTime after = requestedTime s1"
      unfolding a using h b step_keeps_time [of s1 cfg now utterance w1] by simp
    ultimately show "requestedTime after = None" by simp
  qed
  have p3: "state before = AwaitingName
              \<longrightarrow> symptomText after = None \<and> doctorId after = None"
  proof
    assume h: "state before = AwaitingName"
    then have "symptomText s1 = None \<and> doctorId s1 = None"
      using o b by (auto simp add: ordered_def)
    moreover have "symptomText after = symptomText s1 \<and> doctorId after = doctorId s1"
      unfolding a using h b step_keeps_symptoms [of s1 cfg now utterance w1] by simp
    ultimately show "symptomText after = None \<and> doctorId after = None" by simp
  qed
  have p4: "state before = AwaitingName \<or> state before = AwaitingSymptoms
              \<or> state before = AwaitingDatetime
              \<longrightarrow> \<not> confirmed after \<and> bookingRef after = None"
  proof
    assume h: "state before = AwaitingName \<or> state before = AwaitingSymptoms
              \<or> state before = AwaitingDatetime"
    then have "\<not> confirmed s1 \<and> bookingRef s1 = None"
      using o b by (auto simp add: ordered_def)
    moreover have "confirmed after = confirmed s1 \<and> bookingRef after = bookingRef s1"
      unfolding a using h b step_keeps_confirmation [of s1 cfg now utterance w1] by simp
    ultimately show "\<not> confirmed after \<and> bookingRef after = None" by simp
  qed
  have p5: "state before = AwaitingName \<and> state after = AwaitingSymptoms
              \<longrightarrow> extractName utterance \<noteq> None \<and> patientName after = extractName utterance"
    unfolding a b using step_supplies_name [of s1 cfg now utterance w1] by blast
  have p6: "state before = AwaitingSymptoms \<and> state after = AwaitingDatetime
              \<longrightarrow> extractSymptom utterance \<noteq> None
                  \<and> symptomText after = extractSymptom utterance
                  \<and> doctorId after = Some (match_doctor cfg utterance)"
    unfolding a b using step_supplies_symptoms [of s1 cfg now utterance w1] by blast
  have p7: "state before = AwaitingDatetime \<and> state after = AwaitingConfirmation
              \<longrightarrow> (\<exists>t. resolve cfg utterance now (timezone cfg) = Inr t
                       \<and> requestedTime after = Some t)"
    unfolding a b using step_supplies_time [of s1 cfg now utterance w1] by blast
  have p8: "state after = Booked \<and> state before \<noteq> Booked
              \<longrightarrow> state before = AwaitingConfirmation \<and> classify cfg utterance = Affirm
                  \<and> confirmed after"
    unfolding a b using step_books_on_affirm [of cfg now utterance s1 w1] by blast
  have p9: "state after = AwaitingDatetime
              \<longrightarrow> patientName after \<noteq> None \<and> symptomText after \<noteq> None
                  \<and> doctorId after \<noteq> None"
    using o' by (simp add: ordered_def)
  have p10: "state after = AwaitingConfirmation \<or> state after = Booked
              \<longrightarrow> patientName after \<noteq> None \<and> symptomText after \<noteq> None
                  \<and> doctorId after \<noteq> None \<and> requestedTime after \<noteq> None"
    using o' by (simp add: ordered_def)
  show ?thesis
    using p1 p2 p3 p4 p5 p6 p7 p8 p9 p10 by (intro conjI) assumption+
qed

text \<open>
  The first utterance gives the name and mentions a time that the resolver would accept:
  the session arrives at \<open>AwaitingDatetime\<close> with no time, stays there on an utterance
  with no time in it, and moves on, unconfirmed, when the time is said again.
\<close>

theorem no_forward_skip_witness:
  "sample_parse ''Sarah Johnson tomorrow at 2pm'' 100000 ''Asia/Kolkata'' = Some 223200
   \<and> state (fst (run sample_config (new_session ''s1'' 100000, sample_world)
                    [(100000, ''Sarah Johnson tomorrow at 2pm'')])) = AwaitingSymptoms
   \<and> state (fst (run sample_config (new_session ''s1'' 100000, sample_world)
                    ([(100000, ''Sarah Johnson tomorrow at 2pm'')]
                     @ [(100060, ''I have a bad headache and fever'')]))) = AwaitingDatetime
   \<and> requestedTime (fst (run sample_config (new_session ''s1'' 100000, sample_world)
                    ([(100000, ''Sarah Johnson tomorrow at 2pm'')]
                     @ [(100060, ''I have a bad headache and fever'')]))) = None
   \<and> state (fst (run sample_config (new_session ''s1'' 100000, sample_world) early_turns))
      = AwaitingDatetime
   \<and> state (fst (run sample_config (new_session ''s1'' 100000, sample_world)
                    (early_turns @ [(100120, ''soon'')]))) = AwaitingDatetime
   \<and> state (fst (run sample_config (new_session ''s1'' 100000, sample_world) stalled_turns))
      = AwaitingDatetime
   \<and> state (fst (run sample_config (new_session ''s1'' 100000, sample_world)
                    (stalled_turns @ [(100180, ''tomorrow at 2pm'')]))) = AwaitingConfirmation
   \<and> requestedTime (fst (run sample_config (new_session ''s1'' 100000, sample_world)
                    (stalled_turns @ [(100180, ''tomorrow at 2pm'')]))) = Some 223200
   \<and> \<not> confirmed (fst (run sample_config (new_session ''s1'' 100000, sample_world)
                    (stalled_turns @ [(100180, ''tomorrow at 2pm'')])))"
proof -
  let ?start = "(new_session ''s1'' 100000, sample_world)"
  have p: "sample_parse ''Sarah Johnson tomorrow at 2pm'' 100000 ''Asia/Kolkata'' = Some 223200"
    by (simp add: sample_parse_def)
  have b1: "state (fst (run sample_config ?start [(100000, ''Sarah Johnson tomorrow at 2pm'')]))
            = AwaitingSymptoms"
    by (simp add: sample_defs)
  have a1: "state (fst (run sample_config ?start
                    ([(100000, ''Sarah Johnson tomorrow at 2pm'')]
                     @ [(100060, ''I have a bad headache and fever'')]))) = AwaitingDatetime"
    using early_run by (simp add: early_turns_def)
  have b2: "state (fst (run sample_config ?start early_turns)) = AwaitingDatetime"
    by (simp add: early_run)
  have a2: "state (fst (run sample_config ?start (early_turns @ [(100120, ''soon'')])))
            = AwaitingDatetime"
    using stalled_run by (simp add: stalled_turns_def)
  have b3: "state (fst (run sample_config ?start stalled_turns)) = AwaitingDatetime"
    by (simp add: stalled_run)
  have a3: "state (fst (run sample_config ?start (stalled_turns @ [(100180, ''tomorrow at 2pm'')])))
            = AwaitingConfirmation"
    unfolding run_append stalled_run by (simp add: sample_defs)
  have r3: "resolve sample_config ''tomorrow at 2pm'' 100180 (timezone sample_config) = Inr 223200"
    by (simp add: resolve_def sample_config_def sample_parse_def)
  note first = no_forward_skip [where cfg = sample_config and sid = "''s1''" and ?t0.0 = 100000
        and wd = sample_world and turns = "[(100000, ''Sarah Johnson tomorrow at 2pm'')]"
        and now = 100060 and utterance = "''I have a bad headache and fever''"]
  note last = no_forward_skip [where cfg = sample_config and sid = "''s1''" and ?t0.0 = 100000
        and wd = sample_world and turns = stalled_turns
        and now = 100180 and utterance = "''tomorrow at 2pm''"]
  have t1: "requestedTime (fst (run sample_config ?start
                    ([(100000, ''Sarah Johnson tomorrow at 2pm'')]
                     @ [(100060, ''I have a bad headache and fever'')]))) = None"
    using first b1 by blast
  have t3: "requestedTime (fst (run sample_config ?start
                    (stalled_turns @ [(100180, ''tomorrow at 2pm'')]))) = Some 223200"
    using last b3 a3 r3 by auto
  have c3: "\<not> confirmed (fst (run sample_config ?start
                    (stalled_turns @ [(100180, ''tomorrow at 2pm'')])))"
    using last b3 by blast
  show ?thesis
    using p b1 a1 t1 b2 a2 b3 a3 t3 c3 by (intro conjI) assumption+
qed




lemma step_sessionId: "sessionId (fst (step cfg now u (s, wd))) = sessionId s"
  using step_cases [of s cfg now u wd] affirm_cases [of s cfg wd now]
  by (auto simp add: touch_fields)

lemma createEvent_seen:
  "find (\<lambda>e. evKey e = k) (events cal) \<noteq> None \<Longrightarrow> snd (createEvent cal d w p k) = cal"
  by (auto simp add: createEvent_def)

lemma createEvent_grows:
  assumes "events cal = events cal0 \<or> (\<exists>e. events cal = events cal0 @ [e] \<and> evKey e = k)"
  shows "events (snd (createEvent cal d w p k)) = events cal0
         \<or> (\<exists>e. events (snd (createEvent cal d w p k)) = events cal0 @ [e] \<and> evKey e = k)"
  using assms
proof (elim disjE exE conjE)
  assume same: "events cal = events cal0"
  show ?thesis
  proof (cases "find (\<lambda>e. evKey e = k) (events cal)")
    case None
    then show ?thesis using same by (simp add: createEvent_def Let_def)
  next
    case (Some e)
    then show ?thesis using same by (simp add: createEvent_def)
  qed
next
  fix e
  assume added: "events cal = events cal0 @ [e]" and key: "evKey e = k"
  then have "find (\<lambda>e. evKey e = k) (events cal) \<noteq> None"
    by (auto simp add: find_None_iff)
  then have "snd (createEvent cal d w p k) = cal" by (rule createEvent_seen)
  then show ?thesis using added key by simp
qed

lemma create_retry_grows:
  "events cal = events cal0 \<or> (\<exists>e. events cal = events cal0 @ [e] \<and> evKey e = k) \<Longrightarrow>
     events (fst (snd (create_retry n cal d w p k net))) = events cal0
     \<or> (\<exists>e. events (fst (snd (create_retry n cal d w p k net))) = events cal0 @ [e] \<and> evKey e = k)"
proof (induction n arbitrary: cal net)
  case 0
  then show ?case by simp
next
  case (Suc n)
  obtain a net' where na: "next_attempt net = (a, net')" by (cases "next_attempt net")
  show ?case
  proof (cases a)
    case Delivered
    then show ?thesis
      using na createEvent_grows [OF Suc.prems, of d w p]
      by (cases "createEvent cal d w p k") simp
  next
    case Dropped
    then show ?thesis using na Suc.IH [OF Suc.prems] by simp
  next
    case Unanswered
    then show ?thesis
      using na Suc.IH [OF createEvent_grows [OF Suc.prems, of d w p]] by simp
  qed
qed

lemma tryBook_grows:
  assumes "events (calendar wd) = events cal0
           \<or> (\<exists>e. events (calendar wd) = events cal0 @ [e] \<and> evKey e = sid)"
  shows "events (calendar (snd (tryBook cfg sid d w p wd))) = events cal0
         \<or> (\<exists>e. events (calendar (snd (tryBook cfg sid d w p wd))) = events cal0 @ [e]
                 \<and> evKey e = sid)"
proof -
  obtain q net1 where q: "query_retry (maxAttempts cfg) (calendar wd) d w (network wd) = (q, net1)"
    by (cases "query_retry (maxAttempts cfg) (calendar wd) d w (network wd)")
  obtain r cal' net2 where
    c: "create_retry (maxAttempts cfg) (calendar wd) d w p sid net1 = (r, cal', net2)"
    by (cases "create_retry (maxAttempts cfg) (calendar wd) d w p sid net1")
  have "events cal' = events cal0 \<or> (\<exists>e. events cal' = events cal0 @ [e] \<and> evKey e = sid)"
    using create_retry_grows [OF assms, of "maxAttempts cfg" d w p net1] c by simp
  then show ?thesis
    using assms q c by (simp add: tryBook_def split: option.splits)
qed

lemma affirm_grows:
  assumes "events (calendar wd) = events cal0
           \<or> (\<exists>e. events (calendar wd) = events cal0 @ [e] \<and> evKey e = sessionId s)"
  shows "events (calendar (snd (affirm cfg now (s, wd)))) = events cal0
         \<or> (\<exists>e. events (calendar (snd (affirm cfg now (s, wd)))) = events cal0 @ [e]
                 \<and> evKey e = sessionId s)"
  using affirm_cases [of s cfg wd now]
proof (elim disjE exE conjE)
  fix r wd' p d t
  assume "tryBook cfg (sessionId s) d (t, t + duration cfg) p wd = (BookingRef r, wd')"
    and "affirm cfg now (s, wd) =
           (touch now (s\<lparr>confirmed := True, bookingRef := Some r, state := Booked\<rparr>), wd')"
  then show ?thesis
    using tryBook_grows [OF assms, of cfg d "(t, t + duration cfg)" p] by simp
next
  fix wd' p d t
  assume "tryBook cfg (sessionId s) d (t, t + duration cfg) p wd = (Conflict, wd')"
    and "affirm cfg now (s, wd) = (touch now (s\<lparr>state := AwaitingDatetime\<rparr>), wd')"
  then show ?thesis
    using tryBook_grows [OF assms, of cfg d "(t, t + duration cfg)" p] by simp
next
  fix wd' p d t
  assume "tryBook cfg (sessionId s) d (t, t + duration cfg) p wd = (TransientFailure, wd')"
    and "affirm cfg now (s, wd) = (touch now s, wd')"
  then show ?thesis
    using tryBook_grows [OF assms, of cfg d "(t, t + duration cfg)" p] by simp
next
  assume "affirm cfg now (s, wd) = (touch now (s\<lparr>state := Failed\<rparr>), wd)"
  then show ?thesis using assms by simp
qed

lemma step_grows:
  assumes "events (calendar wd) = events cal0
           \<or> (\<exists>e. events (calendar wd) = events cal0 @ [e] \<and> evKey e = sessionId s)"
  shows "events (calendar (snd (step cfg now u (s, wd)))) = events cal0
         \<or> (\<exists>e. events (calendar (snd (step cfg now u (s, wd)))) = events cal0 @ [e]
                 \<and> evKey e = sessionId s)"
  using step_cases [of s cfg now u wd] affirm_grows [OF assms, of cfg now] assms
  by (elim disjE exE conjE) simp_all

lemma run_grows:
  "events (calendar wd) = events cal0
     \<or> (\<exists>e. events (calendar wd) = events cal0 @ [e] \<and> evKey e = sessionId s) \<Longrightarrow>
   events (calendar (snd (run cfg (s, wd) turns))) = events cal0
     \<or> (\<exists>e. events (calendar (snd (run cfg (s, wd) turns))) = events cal0 @ [e]
             \<and> evKey e = sessionId s)"
proof (induction turns arbitrary: s wd)
  case Nil
  then show ?case by simp
next
  case (Cons a turns)
  obtain now u where a: "a = (now, u)" by (cases a)
  obtain s' wd' where st: "step cfg now u (s, wd) = (s', wd')" by (cases "step cfg now u (s, wd)")
  have sid: "sessionId s' = sessionId s" using step_sessionId [of cfg now u s wd] st by simp
  have "events (calendar wd') = events cal0
        \<or> (\<exists>e. events (calendar wd') = events cal0 @ [e] \<and> evKey e = sessionId s')"
    using step_grows [OF Cons.prems, of cfg now u] st sid by simp
  then show ?case using Cons.IH [of wd' s'] sid by (simp add: a st)
qed

lemma grows_at_most_one_added:
  "events cal = events cal0 \<or> (\<exists>e. events cal = events cal0 @ [e] \<and> evKey e = k) \<Longrightarrow>
     at_most_one_added k cal0 cal"
  by (auto simp add: at_most_one_added_def)

lemma createEvent_bookings:
  assumes "length (bookings_of k' cal) \<le> 1"
  shows "length (bookings_of k' (snd (createEvent cal d w p k))) \<le> 1"
proof (cases "find (\<lambda>e. evKey e = k) (events cal)")
  case (Some e)
  then show ?thesis using assms by (simp add: createEvent_def)
next
  case None
  then have no: "filter (\<lambda>e. evKey e = k) (events cal) = []"
    by (simp add: find_None_iff filter_empty_conv)
  show ?thesis
  proof (cases "k' = k")
    case True
    then show ?thesis using None no by (simp add: createEvent_def bookings_of_def Let_def)
  next
    case False
    then show ?thesis using None assms by (simp add: createEvent_def bookings_of_def Let_def)
  qed
qed

lemma create_retry_bookings:
  "length (bookings_of k' cal) \<le> 1 \<Longrightarrow>
     length (bookings_of k' (fst (snd (create_retry n cal d w p k net)))) \<le> 1"
proof (induction n arbitrary: cal net)
  case 0
  then show ?case by simp
next
  case (Suc n)
  obtain a net' where na: "next_attempt net = (a, net')" by (cases "next_attempt net")
  show ?case
  proof (cases a)
    case Delivered
    then show ?thesis
      using na createEvent_bookings [OF Suc.prems, of d w p k]
      by (cases "createEvent cal d w p k") simp
  next
    case Dropped
    then show ?thesis using na Suc.IH [OF Suc.prems] by simp
  next
    case Unanswered
    then show ?thesis
      using na Suc.IH [OF createEvent_bookings [OF Suc.prems, of d w p k]] by simp
  qed
qed

lemma tryBook_bookings:
  assumes "length (bookings_of k' (calendar wd)) \<le> 1"
  shows "length (bookings_of k' (calendar (snd (tryBook cfg sid d w p wd)))) \<le> 1"
proof -
  obtain q net1 where q: "query_retry (maxAttempts cfg) (calendar wd) d w (network wd) = (q, net1)"
    by (cases "query_retry (maxAttempts cfg) (calendar wd) d w (network wd)")
  obtain r cal' net2 where
    c: "create_retry (maxAttempts cfg) (calendar wd) d w p sid net1 = (r, cal', net2)"
    by (cases "create_retry (maxAttempts cfg) (calendar wd) d w p sid net1")
  have "length (bookings_of k' cal') \<le> 1"
    using create_retry_bookings [OF assms, of "maxAttempts cfg" d w p sid net1] c by simp
  then show ?thesis
    using assms q c by (simp add: tryBook_def split: option.splits)
qed

lemma affirm_bookings:
  assumes "length (bookings_of k' (calendar wd)) \<le> 1"
  shows "length (bookings_of k' (calendar (snd (affirm cfg now (s, wd))))) \<le> 1"
proof (cases "(patientName s, doctorId s, requestedTime s)")
  case (fields pn di rt)
  show ?thesis
  proof (cases "\<exists>p d t. pn = Some p \<and> di = Some d \<and> rt = Some t")
    case True
    then obtain p d t where f: "pn = Some p" "di = Some d" "rt = Some t" by blast
    obtain res wd' where tb: "tryBook cfg (sessionId s) d (t, t + duration cfg) p wd = (res, wd')"
      by (cases "tryBook cfg (sessionId s) d (t, t + duration cfg) p wd")
    have "length (bookings_of k' (calendar wd')) \<le> 1"
      using tryBook_bookings [OF assms, of cfg "sessionId s" d "(t, t + duration cfg)" p] tb
      by simp
    then show ?thesis
      using fields f tb by (cases res) (simp_all add: affirm_def)
  next
    case False
    then have "affirm cfg now (s, wd) = (touch now (s\<lparr>state := Failed\<rparr>), wd)"
      using fields by (auto simp add: affirm_def split: option.splits)
    then show ?thesis using assms by simp
  qed
qed

lemma step_bookings:
  assumes "length (bookings_of k' (calendar wd)) \<le> 1"
  shows "length (bookings_of k' (calendar (snd (step cfg now u (s, wd))))) \<le> 1"
  using step_cases [of s cfg now u wd] affirm_bookings [OF assms, of cfg now s] assms
  by auto

lemma run_bookings:
  "length (bookings_of k' (calendar wd)) \<le> 1 \<Longrightarrow>
     length (bookings_of k' (calendar (snd (run cfg (s, wd) turns)))) \<le> 1"
proof (induction turns arbitrary: s wd)
  case Nil
  then show ?case by simp
next
  case (Cons a turns)
  obtain now u where a: "a = (now, u)" by (cases a)
  obtain s' wd' where st: "step cfg now u (s, wd) = (s', wd')" by (cases "step cfg now u (s, wd)")
  have "length (bookings_of k' (calendar wd')) \<le> 1"
    using step_bookings [OF Cons.prems, of cfg now u s] st by simp
  then show ?case using Cons.IH [of wd' s'] by (simp add: a st)
qed

lemma createEvent_ref:
  assumes "createEvent cal d w p k = (r, cal')"
  shows "\<exists>e\<in>set (events cal'). evKey e = k \<and> evRef e = r"
proof (cases "find (\<lambda>e. evKey e = k) (events cal)")
  case None
  then show ?thesis using assms by (auto simp add: createEvent_def Let_def)
next
  case (Some e)
  then have "e \<in> set (events cal) \<and> evKey e = k"
    by (auto simp add: find_Some_iff)
  then show ?thesis using assms Some by (auto simp add: createEvent_def)
qed

lemma create_retry_ref:
  "create_retry n cal d w p k net = (Some r, cal', net') \<Longrightarrow>
     \<exists>e\<in>set (events cal'). evKey e = k \<and> evRef e = r"
proof (induction n arbitrary: cal net)
  case 0
  then show ?case by simp
next
  case (Suc n)
  obtain a net1 where na: "next_attempt net = (a, net1)" by (cases "next_attempt net")
  show ?case
  proof (cases a)
    case Delivered
    obtain r1 cal1 where ce: "createEvent cal d w p k = (r1, cal1)"
      by (cases "createEvent cal d w p k")
    then show ?thesis
      using Suc.prems na Delivered createEvent_ref [OF ce] by simp
  next
    case Dropped
    then show ?thesis using Suc.prems na Suc.IH by simp
  next
    case Unanswered
    then show ?thesis using Suc.prems na Suc.IH by simp
  qed
qed

lemma tryBook_ref:
  assumes "tryBook cfg sid d w p wd = (BookingRef r, wd')"
  shows "\<exists>e\<in>set (events (calendar wd')). evKey e = sid \<and> evRef e = r"
proof -
  obtain q net1 where q: "query_retry (maxAttempts cfg) (calendar wd) d w (network wd) = (q, net1)"
    by (cases "query_retry (maxAttempts cfg) (calendar wd) d w (network wd)")
  obtain r' cal' net2 where
    c: "create_retry (maxAttempts cfg) (calendar wd) d w p sid net1 = (r', cal', net2)"
    by (cases "create_retry (maxAttempts cfg) (calendar wd) d w p sid net1")
  have "r' = Some r \<and> calendar wd' = cal'"
    using assms q c by (auto simp add: tryBook_def split: option.splits if_splits)
  then show ?thesis using create_retry_ref [of "maxAttempts cfg" "calendar wd" d w p sid net1 r cal' net2] c
    by simp
qed

lemma step_ref:
  assumes "ordered s"
    and "bookingRef s \<noteq> None \<longrightarrow>
           (\<exists>e\<in>set (events (calendar wd)). evKey e = sessionId s \<and> Some (evRef e) = bookingRef s)"
  shows "bookingRef (fst (step cfg now u (s, wd))) \<noteq> None \<longrightarrow>
           (\<exists>e\<in>set (events (calendar (snd (step cfg now u (s, wd))))).
               evKey e = sessionId s \<and> Some (evRef e) = bookingRef (fst (step cfg now u (s, wd))))"
proof (cases "terminal (state s)")
  case True
  then show ?thesis using assms(2) by (simp add: step_terminal)
next
  case False
  then have none: "bookingRef s = None" using assms(1) by (auto simp add: ordered_def terminal_def)
  have aff: "bookingRef (fst (affirm cfg now (s, wd))) \<noteq> None \<longrightarrow>
           (\<exists>e\<in>set (events (calendar (snd (affirm cfg now (s, wd))))).
               evKey e = sessionId s \<and> Some (evRef e) = bookingRef (fst (affirm cfg now (s, wd))))"
    using affirm_cases [of s cfg wd now]
  proof (elim disjE exE conjE)
    fix r wd' p d t
    assume tb: "tryBook cfg (sessionId s) d (t, t + duration cfg) p wd = (BookingRef r, wd')"
      and "affirm cfg now (s, wd) =
             (touch now (s\<lparr>confirmed := True, bookingRef := Some r, state := Booked\<rparr>), wd')"
    then show ?thesis using tryBook_ref [OF tb] by (auto simp add: touch_fields)
  next
    fix wd'
    assume "affirm cfg now (s, wd) = (touch now (s\<lparr>state := AwaitingDatetime\<rparr>), wd')"
    then show ?thesis using none by (simp add: touch_fields)
  next
    fix wd'
    assume "affirm cfg now (s, wd) = (touch now s, wd')"
    then show ?thesis using none by (simp add: touch_fields)
  next
    assume "affirm cfg now (s, wd) = (touch now (s\<lparr>state := Failed\<rparr>), wd)"
    then show ?thesis using none by (simp add: touch_fields)
  qed
  show ?thesis
    using step_cases [of s cfg now u wd] False none aff
    by (elim disjE exE conjE) (simp_all add: touch_fields)
qed

lemma run_ref:
  "ordered s \<Longrightarrow>
   bookingRef s \<noteq> None \<longrightarrow>
     (\<exists>e\<in>set (events (calendar wd)). evKey e = sessionId s \<and> Some (evRef e) = bookingRef s) \<Longrightarrow>
   bookingRef (fst (run cfg (s, wd) turns)) \<noteq> None \<longrightarrow>
     (\<exists>e\<in>set (events (calendar (snd (run cfg (s, wd) turns)))).
         evKey e = sessionId s \<and> Some (evRef e) = bookingRef (fst (run cfg (s, wd) turns)))"
proof (induction turns arbitrary: s wd)
  case Nil
  then show ?case by simp
next
  case (Cons a turns)
  obtain now u where a: "a = (now, u)" by (cases a)
  obtain s' wd' where st: "step cfg now u (s, wd) = (s', wd')" by (cases "step cfg now u (s, wd)")
  have sid: "sessionId s' = sessionId s" using step_sessionId [of cfg now u s wd] st by simp
  have o: "ordered s'" using step_ordered [OF Cons.prems(1), of cfg now u wd] st by simp
  have k: "bookingRef s' \<noteq> None \<longrightarrow>
     (\<exists>e\<in>set (events (calendar wd')). evKey e = sessionId s' \<and> Some (evRef e) = bookingRef s')"
    using step_ref [OF Cons.prems, of cfg now u] st sid by simp
  show ?case using Cons.IH [OF o k] sid by (simp add: a st)
qed

text \<open>
  Claim C1. For every session identifier, whatever the utterances and however the
  attempts of the external calls end (a create request that is carried out but not
  answered in time and then retried included), the whole conversation adds at most one
  event to the calendar, made under the session's identifier, and leaves the earlier
  events as they were; a calendar that held at most one booking for the session still
  does. A reference is stored only in \<open>Booked\<close>, and it is the reference of a booking
  that the calendar holds for the session. Once the session is \<open>Booked\<close>, utterances
  delivered again (the confirming one included) change neither the session nor the
  calendar, so the reference stored is the only one ever stored.
\<close>

theorem at_most_one_booking:
  fixes cfg sid t0 wd turns more
  defines "reached \<equiv> run cfg (new_session sid t0, wd) turns"
  defines "later \<equiv> run cfg (new_session sid t0, wd) (turns @ more)"
  shows "at_most_one_added sid (calendar wd) (calendar (snd later))
         \<and> (length (bookings_of sid (calendar wd)) \<le> 1
              \<longrightarrow> length (bookings_of sid (calendar (snd later))) \<le> 1)
         \<and> (state (fst reached) = Booked \<longrightarrow> later = reached)
         \<and> (bookingRef (fst reached) \<noteq> None \<longrightarrow>
              bookingRef (fst later) = bookingRef (fst reached)
              \<and> calendar (snd later) = calendar (snd reached))
         \<and> (bookingRef (fst later) \<noteq> None \<longrightarrow>
              state (fst later) = Booked
              \<and> (\<exists>e\<in>set (events (calendar (snd later))).
                     evKey e = sid \<and> Some (evRef e) = bookingRef (fst later)))"
proof -
  have sid: "sessionId (new_session sid t0) = sid" by (simp add: new_session_def)
  have start: "events (calendar wd) = events (calendar wd)
               \<or> (\<exists>e. events (calendar wd) = events (calendar wd) @ [e]
                       \<and> evKey e = sessionId (new_session sid t0))"
    by simp
  have p0: "at_most_one_added sid (calendar wd) (calendar (snd later))"
    unfolding later_def
    using run_grows [OF start, of cfg "turns @ more"] sid
    by (intro grows_at_most_one_added) simp
  have p1: "length (bookings_of sid (calendar wd)) \<le> 1
              \<longrightarrow> length (bookings_of sid (calendar (snd later))) \<le> 1"
    unfolding later_def using run_bookings by blast
  have p2: "state (fst reached) = Booked \<longrightarrow> later = reached"
  proof
    assume "state (fst reached) = Booked"
    then have "terminal (state (fst (run cfg (new_session sid t0, wd) turns)))"
      by (simp add: reached_def terminal_def)
    then show "later = reached"
      unfolding later_def reached_def by (rule run_after_terminal)
  qed
  have o: "ordered (fst reached)"
    unfolding reached_def by (rule run_ordered [OF new_session_ordered])
  have o': "ordered (fst later)"
    unfolding later_def by (rule run_ordered [OF new_session_ordered])
  have p3: "bookingRef (fst reached) \<noteq> None \<longrightarrow>
              bookingRef (fst later) = bookingRef (fst reached)
              \<and> calendar (snd later) = calendar (snd reached)"
  proof
    assume "bookingRef (fst reached) \<noteq> None"
    then have "state (fst reached) = Booked" using o by (simp add: ordered_def)
    then have "later = reached" using p2 by simp
    then show "bookingRef (fst later) = bookingRef (fst reached)
              \<and> calendar (snd later) = calendar (snd reached)" by simp
  qed
  have none: "bookingRef (new_session sid t0) \<noteq> None \<longrightarrow>
     (\<exists>e\<in>set (events (calendar wd)). evKey e = sessionId (new_session sid t0)
         \<and> Some (evRef e) = bookingRef (new_session sid t0))"
    by (simp add: new_session_def)
  have p4: "bookingRef (fst later) \<noteq> None \<longrightarrow>
              state (fst later) = Booked
              \<and> (\<exists>e\<in>set (events (calendar (snd later))).
                     evKey e = sid \<and> Some (evRef e) = bookingRef (fst later))"
    unfolding later_def
    using run_ref [OF new_session_ordered none, of cfg "turns @ more"] sid o'
    by (simp add: ordered_def later_def)
  show ?thesis using p0 p1 p2 p3 p4 by (intro conjI) assumption+
qed

text \<open>
  The booking conversation on a network that leaves the first create request unanswered,
  followed by the confirming utterance once more: one event in the calendar, one reference.
\<close>

theorem at_most_one_booking_witness:
  "state (fst (run sample_config (new_session ''s1'' 100000, sample_world) sample_turns)) = Booked
   \<and> bookingRef (fst (run sample_config (new_session ''s1'' 100000, sample_world) sample_turns))
      = Some ''booking-0''
   \<and> run sample_config (new_session ''s1'' 100000, sample_world) (sample_turns @ sample_again)
      = run sample_config (new_session ''s1'' 100000, sample_world) sample_turns
   \<and> events (calendar (snd (run sample_config (new_session ''s1'' 100000, sample_world)
                               (sample_turns @ sample_again))))
      = [\<lparr>evDoctor = ''2'', evStart = 223200, evEnd = 225000, evPatient = ''Sarah Johnson'',
          evKey = ''s1'', evRef = ''booking-0''\<rparr>]
   \<and> at_most_one_added ''s1'' (calendar sample_world)
        (calendar (snd (run sample_config (new_session ''s1'' 100000, sample_world)
                          (sample_turns @ sample_again))))"
proof -
  have b: "state (fst (run sample_config (new_session ''s1'' 100000, sample_world) sample_turns))
           = Booked"
    by (simp add: sample_run)
  note inst = at_most_one_booking [where cfg = sample_config and sid = "''s1''" and ?t0.0 = 100000
        and wd = sample_world and turns = sample_turns and more = sample_again]
  have same: "run sample_config (new_session ''s1'' 100000, sample_world) (sample_turns @ sample_again)
              = run sample_config (new_session ''s1'' 100000, sample_world) sample_turns"
    using b inst by blast
  have one: "at_most_one_added ''s1'' (calendar sample_world)
        (calendar (snd (run sample_config (new_session ''s1'' 100000, sample_world)
                          (sample_turns @ sample_again))))"
    using inst by blast
  show ?thesis
    using one unfolding same by (simp add: sample_run)
qed

end
